theory Spec2Isabelle
  imports Complex_Main
begin

section \<open>Data model\<close>

text \<open>
  The module \<^verbatim>\<open>Scripts/model2cntk/unimodel/cntkinstance.py\<close> turns layer descriptors into
  calls of the CNTK construction API. Exceptions of the Python code are values of
  \<open>error\<close>; a function that can raise returns \<open>error + 'a\<close> with \<open>Inl\<close> the exception.
\<close>

datatype error =
    IndexError
  | KeyError
  | AttributeError
  | TypeError
  | ValueError
  | AxisError
  | ZeroDivisionError
  | UnboundLocalError
  | AssertionError string
  | Unmodelled

text \<open>
  A numpy array is its shape and its elements in row-major (C) order. Element values are
  real numbers: the rounding of \<^verbatim>\<open>float32\<close> and its non-finite values are outside this
  model. An array is well formed when the number of elements is the product of the shape.
\<close>

record ndarray =
  shape :: "nat list"
  data :: "real list"

definition wf_ndarray :: "ndarray \<Rightarrow> bool" where
  "wf_ndarray a = (length (data a) = prod_list (shape a))"

text \<open>
  A pretrained tensor of a layer descriptor. Only its attribute \<^verbatim>\<open>data\<close> is read by the
  module; \<^verbatim>\<open>numpy.asarray(t.data, dtype=numpy.float32)\<close> is the array itself.
\<close>

record tensor_def =
  tdata :: ndarray

definition asarray :: "tensor_def \<Rightarrow> ndarray" where
  "asarray t = tdata t"

text \<open>
  The parameters of a layer are a variant record selected by the layer type; reading an
  attribute of another variant is Python's \<^verbatim>\<open>AttributeError\<close>. Sizes, strides,
  counts and dilation factors are natural numbers. The attributes \<^verbatim>\<open>output\<close>,
  \<^verbatim>\<open>kernel\<close> and \<^verbatim>\<open>group\<close> of the convolution parameters are the fields
  \<open>conv_output\<close>, \<open>conv_kernel\<close> and \<open>conv_group\<close>; the pooling parameters have
  their own \<open>pool_kernel\<close>, \<open>pool_stride\<close> and \<open>pool_auto_pad\<close>, and \<open>lrn_k\<close> is
  the attribute \<^verbatim>\<open>k\<close>.
\<close>

record convolution_parameters =
  conv_output :: nat
  conv_kernel :: "nat list"
  stride :: "nat list"
  auto_pad :: bool
  need_bias :: bool
  conv_group :: nat
  dilation :: "nat list"

record pooling_parameters =
  pooling_type :: bool
  pool_kernel :: "nat list"
  pool_stride :: "nat list"
  pool_auto_pad :: bool

record lrn_parameters =
  lrn_k :: real
  kernel_size :: nat
  alpha :: real
  beta :: real

datatype parameters =
    ConvolutionParameters convolution_parameters
  | BatchNormParameters real
  | PoolingParameters pooling_parameters
  | DenseParameters nat bool
  | ClassificationErrorParameters nat
  | LrnParameters lrn_parameters
  | PSROIPoolingParameters nat nat
  | NoParameters

text \<open>
  A layer descriptor. \<open>op_type\<close> is the name of the enumeration member
  (\<^verbatim>\<open>cntk_layer.op_type.name\<close>). \<open>parameter_tensor\<close> is a list; the module only tests it
  for truth and then reads it, so \<^verbatim>\<open>None\<close> and the empty list are the same value here.
\<close>

record layer =
  op_name :: string
  op_type :: string
  inputs :: "string list"
  parameters :: parameters
  parameter_tensor :: "tensor_def list"

section \<open>The native graph API\<close>

text \<open>
  The CNTK library is not part of the module. A graph object lives in a store and is
  named by its handle (its position in the store); two handles are the same object
  exactly when they are equal. What a builder constructs is recorded as a term of
  \<open>node\<close>: one constructor for each native call, \<open>Ref\<close> for an operand that is an
  existing object. \<^verbatim>\<open>sanitize_input\<close> returns the object it is given. The library
  does not fail in this model: an error of a builder is an error the module raises
  itself or one of Python or numpy. \<^verbatim>\<open>cntk.InferredDimension\<close> is the library's mark
  \<open>- 1\<close> for an extent it is to infer.
\<close>

type_synonym handle = nat

definition InferredDimension :: int where
  "InferredDimension = - 1"

datatype initializer = InitScalar real | InitArray ndarray

datatype node =
    Ref handle
  | InputVariable "nat list" string
  | Parameter "int list" initializer string
  | Constant real "int list" string
  | BatchNormalization node node node node node bool bool real node string
  | Convolution node node "int list" "bool list"
  | Slice node nat int int
  | Splice "node list" nat string
  | Plus node node string
  | Times node node
  | Block string string node
  | Pooling node bool "nat list" "nat list" "bool list" bool string
  | Relu node string
  | ClassificationError node node nat string
  | CrossEntropyWithSoftmax node node string
  | Dropout node string
  | Softmax node string
  | PSROIPooling node node nat nat string
  | Square node
  | Reshape node "int list" nat nat
  | Exp node
  | Log node
  | ScalarPlus real node
  | ScalarTimes real node
  | ElementDivide node node

section \<open>numpy\<close>

text \<open>Multiplying an array by a Python number multiplies every element.\<close>

definition scalar_mult :: "ndarray \<Rightarrow> real \<Rightarrow> ndarray" where
  "scalar_mult a c = a\<lparr>data := map (\<lambda>x. x * c) (data a)\<rparr>"

text \<open>
  \<^verbatim>\<open>a[0]\<close> read as a number. On an array of one axis it is the first element, and an
  \<^verbatim>\<open>IndexError\<close> when there is none; an array without axes cannot be indexed. On an
  array of more axes numpy returns a sub-array; that case is outside this model.
\<close>

definition first_scalar :: "ndarray \<Rightarrow> error + real" where
  "first_scalar a =
     (case shape a of
        [] \<Rightarrow> Inl IndexError
      | [n] \<Rightarrow> (case data a of [] \<Rightarrow> Inl IndexError | x # _ \<Rightarrow> Inr x)
      | _ \<Rightarrow> Inl Unmodelled)"

section \<open>ApiSetup.batch_normalization\<close>

definition dot_join :: "string \<Rightarrow> string \<Rightarrow> string" where
  "dot_join a b = a @ ''.'' @ b"

text \<open>Line 136: \<^verbatim>\<open>1 / global_scale if global_scale != 0 else 0\<close>.\<close>

definition inv_scale :: "real \<Rightarrow> real" where
  "inv_scale global_scale = (if global_scale \<noteq> 0 then 1 / global_scale else 0)"

text \<open>
  Lines 126 to 143: the four initializers, in the order scale, bias, mean, variance.
\<close>

definition batch_normalization_inits ::
  "tensor_def list \<Rightarrow> error + (initializer \<times> initializer \<times> initializer \<times> initializer)" where
  "batch_normalization_inits pt =
     (if pt = [] then Inr (InitScalar 1, InitScalar 0, InitScalar 1, InitScalar 0)
      else if length pt < 3 then
        Inl (AssertionError
          ''At least three tensors (saved_mean, saved_variance and scale) are needed'')
      else
        let mean_tensor = pt ! 0;
            variance_tensor = pt ! 1
        in case first_scalar (tdata (pt ! 2)) of
             Inl e \<Rightarrow> Inl e
           | Inr global_scale \<Rightarrow>
               let scale_init = inv_scale global_scale;
                   mean_init = scalar_mult (asarray mean_tensor) scale_init;
                   var_init = scalar_mult (asarray variance_tensor) scale_init
               in if length pt = 5 then
                    Inr (InitArray (asarray (pt ! 3)), InitArray (asarray (pt ! 4)),
                         InitArray mean_init, InitArray var_init)
                  else
                    Inr (InitScalar scale_init, InitScalar 0,
                         InitArray mean_init, InitArray var_init))"

definition batch_normalization ::
  "(handle \<Rightarrow> nat list) \<Rightarrow> layer \<Rightarrow> handle list \<Rightarrow> error + node" where
  "batch_normalization shp cntk_layer inps =
     (case inps of
        [] \<Rightarrow> Inl IndexError
      | sanitize_input # _ \<Rightarrow>
          (case shp sanitize_input of
             [] \<Rightarrow> Inl IndexError
           | c # _ \<Rightarrow>
               (case batch_normalization_inits (parameter_tensor cntk_layer) of
                  Inl e \<Rightarrow> Inl e
                | Inr (scale_init, bias_init, mean_init, var_init) \<Rightarrow>
                    let pshape = [int c];
                        scale_parameters =
                          Parameter pshape scale_init (dot_join (op_name cntk_layer) ''scale'');
                        bias_parameters =
                          Parameter pshape bias_init (dot_join (op_name cntk_layer) ''bias'');
                        mean_parameters =
                          Parameter pshape mean_init (dot_join (op_name cntk_layer) ''mean'');
                        var_parameters =
                          Parameter pshape var_init (dot_join (op_name cntk_layer) ''var'')
                    in (case parameters cntk_layer of
                          BatchNormParameters epsilon \<Rightarrow>
                            Inr (BatchNormalization (Ref sanitize_input) scale_parameters
                                   bias_parameters mean_parameters var_parameters True False
                                   epsilon (Constant 0 [] []) (op_name cntk_layer))
                        | _ \<Rightarrow> Inl AttributeError))))"

section \<open>numpy: reshape, transpose, split, insert\<close>

text \<open>
  \<^verbatim>\<open>numpy.reshape\<close> keeps the elements in row-major order and raises \<^verbatim>\<open>ValueError\<close>
  when the new shape has another number of elements.
\<close>

definition numpy_reshape :: "ndarray \<Rightarrow> nat list \<Rightarrow> error + ndarray" where
  "numpy_reshape a s =
     (if prod_list s = length (data a) then Inr \<lparr>shape = s, data = data a\<rparr>
      else Inl ValueError)"

text \<open>Row-major offset of a multi-index, and the multi-index of an offset.\<close>

fun ravel :: "nat list \<Rightarrow> nat list \<Rightarrow> nat" where
  "ravel (n # s) (i # idx) = i * prod_list s + ravel s idx"
| "ravel _ _ = 0"

fun unravel :: "nat list \<Rightarrow> nat \<Rightarrow> nat list" where
  "unravel [] k = []"
| "unravel (n # s) k = (k div prod_list s) # unravel s (k mod prod_list s)"

definition valid_index :: "nat list \<Rightarrow> nat list \<Rightarrow> bool" where
  "valid_index s idx = list_all2 (\<lambda>i n. i < n) idx s"


text \<open>
  \<^verbatim>\<open>numpy.transpose(a)\<close> reverses the axes: the element at index \<open>idx\<close> of the result
  is the element at index \<open>rev idx\<close> of \<open>a\<close>.
\<close>

definition numpy_transpose :: "ndarray \<Rightarrow> ndarray" where
  "numpy_transpose a =
     \<lparr>shape = rev (shape a),
      data = map (\<lambda>k. data a ! ravel (shape a) (rev (unravel (rev (shape a)) k)))
                 [0..<prod_list (shape a)]\<rparr>"

text \<open>
  \<^verbatim>\<open>numpy.split(a, sections)\<close> cuts the first axis into \<open>sections\<close> equal parts.
\<close>

definition numpy_split :: "ndarray \<Rightarrow> nat \<Rightarrow> error + ndarray list" where
  "numpy_split a sections =
     (case shape a of
        [] \<Rightarrow> Inl IndexError
      | n # s \<Rightarrow>
          if sections = 0 then Inl ZeroDivisionError
          else if n mod sections \<noteq> 0 then Inl ValueError
          else
            let m = n div sections; sz = m * prod_list s
            in Inr (map (\<lambda>i. \<lparr>shape = m # s, data = take sz (drop (i * sz) (data a))\<rparr>)
                        [0..<sections]))"

text \<open>
  \<^verbatim>\<open>numpy.insert(a, obj, 0, axis)\<close> for a list \<open>obj\<close> of indices: a zero slice is put
  before the slice at each index of \<open>obj\<close> (an index equal to the extent of the axis
  appends), an index taken once for each time it occurs. A negative index counts from the
  end; an index outside the axis is an \<^verbatim>\<open>IndexError\<close>, an axis outside the array an
  \<^verbatim>\<open>AxisError\<close>. \<open>chunks m n xs\<close> are the \<open>n\<close> consecutive blocks of \<open>m\<close> elements.
\<close>

definition chunks :: "nat \<Rightarrow> nat \<Rightarrow> 'a list \<Rightarrow> 'a list list" where
  "chunks m n xs = map (\<lambda>i. take m (drop (i * m) xs)) [0..<n]"

definition insert_rows :: "nat list \<Rightarrow> 'a \<Rightarrow> 'a list \<Rightarrow> 'a list" where
  "insert_rows obj z rows =
     concat (map (\<lambda>j. replicate (count_list obj j) z @ [rows ! j]) [0..<length rows])
     @ replicate (count_list obj (length rows)) z"

fun insert_axis :: "nat list \<Rightarrow> nat \<Rightarrow> nat list \<Rightarrow> real list \<Rightarrow> real list" where
  "insert_axis [] ax obj xs = xs"
| "insert_axis (n # s) 0 obj xs =
     concat (insert_rows obj (replicate (prod_list s) 0) (chunks (prod_list s) n xs))"
| "insert_axis (n # s) (Suc ax) obj xs =
     concat (map (insert_axis s ax obj) (chunks (prod_list s) n xs))"

definition numpy_insert :: "ndarray \<Rightarrow> int list \<Rightarrow> int \<Rightarrow> error + ndarray" where
  "numpy_insert a obj axis =
     (let ndim = int (length (shape a));
          ax = (if axis < 0 then axis + ndim else axis)
      in if ax < 0 \<or> ndim \<le> ax then Inl AxisError
         else
           let n = shape a ! nat ax;
               idx = map (\<lambda>i. if i < 0 then i + int n else i) obj
           in if \<exists>i \<in> set idx. i < 0 \<or> int n < i then Inl IndexError
              else Inr \<lparr>shape = (shape a)[nat ax := n + length obj],
                        data = insert_axis (shape a) (nat ax) (map nat idx) (data a)\<rparr>)"

text \<open>\<^verbatim>\<open>reduce(mul, xs)\<close> without an initial value raises \<^verbatim>\<open>TypeError\<close> on an empty list.\<close>

definition reduce_mul :: "nat list \<Rightarrow> error + nat" where
  "reduce_mul xs = (case xs of [] \<Rightarrow> Inl TypeError | x # r \<Rightarrow> Inr (foldl (*) x r))"

text \<open>\<^verbatim>\<open>str(i)\<close> of a natural number.\<close>

fun str_nat :: "nat \<Rightarrow> string" where
  "str_nat n =
     (if n < 10 then [char_of (48 + n)]
      else str_nat (n div 10) @ [char_of (48 + n mod 10)])"

section \<open>BlockApiSetup.linear and ApiSetup.dense\<close>

text \<open>\<open>linear_block\<close> is \<^verbatim>\<open>BlockApiSetup.linear\<close>, applied to the input \<open>x\<close>.\<close>

definition linear_block :: "nat list \<Rightarrow> nat list \<Rightarrow> ndarray \<Rightarrow> ndarray \<Rightarrow> string \<Rightarrow> node \<Rightarrow> node" where
  "linear_block output_shape input_shape scale_init bias_init name x =
     (let sc = Parameter (map int (input_shape @ output_shape)) (InitArray scale_init)
                 (dot_join name ''sc'');
          b = Parameter (map int output_shape) (InitArray bias_init) (dot_join name ''b'')
      in Block ''linear'' name (Plus (Times x sc) b []))"

text \<open>Lines 187 to 192: the orientation of the pretrained weight.\<close>

definition dense_scale_init ::
  "bool \<Rightarrow> nat \<Rightarrow> nat \<Rightarrow> nat list \<Rightarrow> ndarray \<Rightarrow> error + ndarray" where
  "dense_scale_init transpose_flag output_channel flattened_channel scale_shape scale_init =
     (if transpose_flag then
        (case numpy_reshape scale_init [output_channel, flattened_channel] of
           Inl e \<Rightarrow> Inl e
         | Inr a \<Rightarrow> numpy_reshape (numpy_transpose a) scale_shape)
      else numpy_reshape scale_init scale_shape)"

text \<open>
  Lines 181 to 193. With no pretrained tensor neither \<^verbatim>\<open>scale_init\<close> nor
  \<^verbatim>\<open>bias_init\<close> is assigned, and reading them on line 194 raises
  \<^verbatim>\<open>UnboundLocalError\<close>.
\<close>

definition dense_inits ::
  "tensor_def list \<Rightarrow> bool \<Rightarrow> nat \<Rightarrow> nat \<Rightarrow> nat list \<Rightarrow> error + (ndarray \<times> ndarray)" where
  "dense_inits pt transpose_flag output_channel flattened_channel scale_shape =
     (if pt = [] then Inl UnboundLocalError
      else if length pt \<noteq> 2 then
        Inl (AssertionError ''dense layer layer receives two inputs (scale/bias)'')
      else
        let scale_tensor = pt ! 0;
            bias_tensor = pt ! 1
        in case dense_scale_init transpose_flag output_channel flattened_channel scale_shape
                  (asarray scale_tensor) of
             Inl e \<Rightarrow> Inl e
           | Inr scale_init \<Rightarrow> Inr (scale_init, asarray bias_tensor))"

definition dense :: "(handle \<Rightarrow> nat list) \<Rightarrow> layer \<Rightarrow> handle list \<Rightarrow> error + node" where
  "dense shp cntk_layer inps =
     (case inps of
        [] \<Rightarrow> Inl IndexError
      | sanitize_input # _ \<Rightarrow>
          let input_channel = shp sanitize_input
          in (case parameters cntk_layer of
                DenseParameters output_channel transpose_flag \<Rightarrow>
                  (case reduce_mul input_channel of
                     Inl e \<Rightarrow> Inl e
                   | Inr flattened_channel \<Rightarrow>
                       let scale_shape = input_channel @ [output_channel];
                           bias_shape = [output_channel]
                       in (case dense_inits (parameter_tensor cntk_layer) transpose_flag
                                  output_channel flattened_channel scale_shape of
                             Inl e \<Rightarrow> Inl e
                           | Inr (scale_init, bias_init) \<Rightarrow>
                               Inr (linear_block bias_shape scale_shape scale_init bias_init
                                      (op_name cntk_layer) (Ref sanitize_input))))
              | _ \<Rightarrow> Inl AttributeError))"

text \<open>
  The inverse of the orientation transform, as the specification words it: the inverse
  reshape (back to the transposed two-dimensional layout), the inverse transpose, the
  inverse reshape (back to the shape the tensor came in).
\<close>

definition dense_scale_init_inverse ::
  "nat \<Rightarrow> nat \<Rightarrow> nat list \<Rightarrow> ndarray \<Rightarrow> error + ndarray" where
  "dense_scale_init_inverse output_channel flattened_channel original_shape r =
     (case numpy_reshape r [flattened_channel, output_channel] of
        Inl e \<Rightarrow> Inl e
      | Inr a \<Rightarrow> numpy_reshape (numpy_transpose a) original_shape)"

section \<open>BlockApiSetup.convolution and ApiSetup.convolution\<close>

text \<open>
  Line 34: the positions of the dilated axis that no tap of the kernel covers, the
  symmetric difference of \<^verbatim>\<open>range(dilation_kernel[axis])\<close> and the tap positions. A
  Python set of small natural numbers is listed in increasing order. The kernel sizes of
  a descriptor are a Python list (the pooling builder turns them into a tuple), so
  \<^verbatim>\<open>dilation_kernel != kernel\<close> compares the elements.
\<close>

definition insert_lines :: "nat \<Rightarrow> nat \<Rightarrow> int \<Rightarrow> nat list" where
  "insert_lines k d dk =
     (let kernel_sequence = map (\<lambda>x. x * d) [0..<k];
          positions = [0..<nat dk]
      in sort (remdups (filter (\<lambda>x. x \<notin> set kernel_sequence) positions
                        @ filter (\<lambda>x. x \<notin> set positions) kernel_sequence)))"

text \<open>Lines 35 and 36: \<^verbatim>\<open>insert_lines[index] -= index\<close>.\<close>

definition shift_lines :: "nat list \<Rightarrow> int list" where
  "shift_lines ls = map2 (\<lambda>a i. int a - int i) ls [0..<length ls]"

text \<open>Lines 32 to 37, the loop over \<^verbatim>\<open>range(len(dilation))\<close>.\<close>

fun expand_axes ::
  "nat list \<Rightarrow> nat list \<Rightarrow> int list \<Rightarrow> nat \<Rightarrow> nat list \<Rightarrow> ndarray \<Rightarrow> error + ndarray" where
  "expand_axes ksize dilation_f dilation_kernel ndim [] used_init = Inr used_init"
| "expand_axes ksize dilation_f dilation_kernel ndim (axis # axes) used_init =
     (if length ksize \<le> axis \<or> length dilation_kernel \<le> axis then Inl IndexError
      else
        case numpy_insert used_init
               (shift_lines (insert_lines (ksize ! axis) (dilation_f ! axis)
                               (dilation_kernel ! axis)))
               (int ndim - int axis - 1) of
          Inl e \<Rightarrow> Inl e
        | Inr u \<Rightarrow> expand_axes ksize dilation_f dilation_kernel ndim axes u)"

definition dilation_kernel_of :: "nat list \<Rightarrow> nat list \<Rightarrow> int list" where
  "dilation_kernel_of ksize dilation_f =
     map2 (\<lambda>k d. (int k - 1) * int d + 1) ksize dilation_f"

text \<open>Lines 28 to 37: the initializer \<^verbatim>\<open>used_init\<close> of the weight parameter.\<close>

definition expand_kernel :: "nat list \<Rightarrow> nat list \<Rightarrow> ndarray \<Rightarrow> error + ndarray" where
  "expand_kernel ksize dilation_f init =
     (let dilation_kernel = dilation_kernel_of ksize dilation_f
      in if dilation_kernel \<noteq> map int ksize then
           expand_axes ksize dilation_f dilation_kernel (length (shape init))
             [0..<length dilation_f] init
         else Inr init)"






text \<open>
  \<^verbatim>\<open>weights_parameter\<close>. Without a pretrained kernel \<^verbatim>\<open>init\<close> is \<^verbatim>\<open>None\<close> and
  \<^verbatim>\<open>init.copy()\<close> raises \<^verbatim>\<open>AttributeError\<close>.
\<close>

definition weights_parameter ::
  "nat list \<Rightarrow> nat list \<Rightarrow> nat \<Rightarrow> ndarray option \<Rightarrow> string \<Rightarrow> error + node" where
  "weights_parameter ksize dilation_f output_channels init group_name =
     (case init of
        None \<Rightarrow> Inl AttributeError
      | Some i \<Rightarrow>
          (case expand_kernel ksize dilation_f i of
             Inl e \<Rightarrow> Inl e
           | Inr used_init \<Rightarrow>
               Inr (Parameter
                      ([int output_channels, InferredDimension]
                       @ dilation_kernel_of ksize dilation_f)
                      (InitArray used_init) group_name)))"

definition conv_ops :: "nat list \<Rightarrow> bool \<Rightarrow> node \<Rightarrow> node \<Rightarrow> node" where
  "conv_ops stride_f pad weights x =
     Convolution weights x (InferredDimension # map int stride_f) [pad]"

fun sequence :: "(error + 'a) list \<Rightarrow> error + 'a list" where
  "sequence [] = Inr []"
| "sequence (r # rs) =
     (case r of
        Inl e \<Rightarrow> Inl e
      | Inr x \<Rightarrow> (case sequence rs of Inl e \<Rightarrow> Inl e | Inr xs \<Rightarrow> Inr (x # xs)))"

text \<open>The shape a parameter object was created with (\<^verbatim>\<open>.shape\<close>).\<close>

definition parameter_shape :: "node \<Rightarrow> int list" where
  "parameter_shape n = (case n of Parameter s _ _ \<Rightarrow> s | _ \<Rightarrow> [])"

text \<open>
  Lines 41 to 48: one weight parameter, or one for each group. The result is the weights
  and, for groups, \<^verbatim>\<open>sub_input_channels\<close>.
\<close>

definition convolution_weights ::
  "nat \<Rightarrow> nat list \<Rightarrow> ndarray option \<Rightarrow> nat \<Rightarrow> nat list \<Rightarrow> string
     \<Rightarrow> error + (node + node list \<times> int)" where
  "convolution_weights outp ksize kernel_init grp dilation_f name =
     (if grp = 1 then
        (case weights_parameter ksize dilation_f outp kernel_init (dot_join name ''W'') of
           Inl e \<Rightarrow> Inl e
         | Inr w \<Rightarrow> Inr (Inl w))
      else if grp = 0 then Inl ZeroDivisionError
      else
        let sub_output_channels = outp div grp
        in (case kernel_init of
              None \<Rightarrow> Inl AttributeError
            | Some ki \<Rightarrow>
                (case numpy_split ki grp of
                   Inl e \<Rightarrow> Inl e
                 | Inr groups_kernel_init \<Rightarrow>
                     (case sequence
                             (map (\<lambda>i. weights_parameter ksize dilation_f
                                          sub_output_channels (Some (groups_kernel_init ! i))
                                          (dot_join (dot_join name (str_nat i)) ''W''))
                                  [0..<grp]) of
                        Inl e \<Rightarrow> Inl e
                      | Inr groups_kernel \<Rightarrow>
                          (case groups_kernel of
                             [] \<Rightarrow> Inl IndexError
                           | g # _ \<Rightarrow>
                               (case parameter_shape g of
                                  _ # sub_input_channels # _ \<Rightarrow>
                                    Inr (Inr (groups_kernel, sub_input_channels))
                                | _ \<Rightarrow> Inl IndexError))))))"

text \<open>
  \<^verbatim>\<open>BlockApiSetup.convolution\<close>, applied to the input \<open>x\<close>. The bias parameter \<open>b\<close>
  exists exactly when \<^verbatim>\<open>bias_init is not None\<close>.
\<close>

definition block_convolution ::
  "nat \<Rightarrow> nat list \<Rightarrow> nat list \<Rightarrow> bool \<Rightarrow> ndarray option \<Rightarrow> ndarray option \<Rightarrow> nat
     \<Rightarrow> nat list \<Rightarrow> string \<Rightarrow> node \<Rightarrow> error + node" where
  "block_convolution outp ksize stride_f pad kernel_init bias_init grp dilation_f name x =
     (case convolution_weights outp ksize kernel_init grp dilation_f name of
        Inl e \<Rightarrow> Inl e
      | Inr ws \<Rightarrow>
          let b = map_option (\<lambda>bi. Parameter [int outp] (InitArray bi) (dot_join name ''b''))
                    bias_init;
              apply_x =
                (case ws of
                   Inl w \<Rightarrow> conv_ops stride_f pad w x
                 | Inr (groups_kernel, sub_input_channels) \<Rightarrow>
                     let groups_data =
                           map (\<lambda>i. Slice x 0 (int i * sub_input_channels)
                                       ((int i + 1) * sub_input_channels)) [0..<grp];
                         apply_sub = map2 (conv_ops stride_f pad) groups_kernel groups_data
                     in Splice apply_sub 0 [])
          in Inr (Block ''Convolution'' name
                    (case b of None \<Rightarrow> apply_x | Some bn \<Rightarrow> Plus apply_x bn [])))"

text \<open>Lines 109 to 116: the initializer of the bias.\<close>

definition convolution_bias_init ::
  "convolution_parameters \<Rightarrow> tensor_def list \<Rightarrow> error + ndarray option" where
  "convolution_bias_init params pt =
     (let output_channel = conv_output params;
          bias_shape = [output_channel, 1, 1]
      in if need_bias params then
           (if pt \<noteq> [] then
              (if length pt < 2 then Inl IndexError
               else
                 (case numpy_reshape (asarray (pt ! 1)) bias_shape of
                    Inl e \<Rightarrow> Inl e
                  | Inr bias_init \<Rightarrow> Inr (Some bias_init)))
            else Inr None)
         else Inr None)"

definition convolution :: "layer \<Rightarrow> handle list \<Rightarrow> error + node" where
  "convolution cntk_layer inps =
     (case inps of
        [] \<Rightarrow> Inl IndexError
      | sanitize_input # _ \<Rightarrow>
          (case parameters cntk_layer of
             ConvolutionParameters params \<Rightarrow>
               let output_channel = conv_output params;
                   ksize = conv_kernel params;
                   kernel_init =
                     (if parameter_tensor cntk_layer \<noteq> []
                      then Some (asarray (parameter_tensor cntk_layer ! 0)) else None)
               in (case convolution_bias_init params (parameter_tensor cntk_layer) of
                     Inl e \<Rightarrow> Inl e
                   | Inr bias_init \<Rightarrow>
                       block_convolution output_channel ksize (stride params)
                         (auto_pad params) kernel_init bias_init (conv_group params)
                         (dilation params) (op_name cntk_layer) (Ref sanitize_input))
           | _ \<Rightarrow> Inl AttributeError))"

text \<open>The bias parameter of a convolution block, when it has one.\<close>

definition bias_parameter :: "node \<Rightarrow> node option" where
  "bias_parameter n =
     (case n of
        Block _ _ (Plus _ b _) \<Rightarrow> Some b
      | _ \<Rightarrow> None)"

section \<open>The other builders of ApiSetup\<close>

text \<open>
  \<open>plus_builder\<close> and \<open>splice_builder\<close> are \<^verbatim>\<open>ApiSetup.plus\<close> and
  \<^verbatim>\<open>ApiSetup.splice\<close>. The flag of a \<open>Pooling\<close> node is true for average pooling.
\<close>

definition pooling :: "layer \<Rightarrow> handle list \<Rightarrow> error + node" where
  "pooling cntk_layer inps =
     (case inps of
        [] \<Rightarrow> Inl IndexError
      | sanitize_input # _ \<Rightarrow>
          (case parameters cntk_layer of
             PoolingParameters params \<Rightarrow>
               Inr (Pooling (Ref sanitize_input) (pooling_type params) (pool_kernel params)
                      (pool_stride params) [pool_auto_pad params] True (op_name cntk_layer))
           | _ \<Rightarrow> Inl AttributeError))"

definition relu :: "layer \<Rightarrow> handle list \<Rightarrow> error + node" where
  "relu cntk_layer inps =
     (case inps of
        [] \<Rightarrow> Inl IndexError
      | sanitize_input # _ \<Rightarrow> Inr (Relu (Ref sanitize_input) (op_name cntk_layer)))"

definition plus_builder :: "layer \<Rightarrow> handle list \<Rightarrow> error + node" where
  "plus_builder cntk_layer inps =
     (case inps of
        sanitize_left # sanitize_right # _ \<Rightarrow>
          Inr (Plus (Ref sanitize_left) (Ref sanitize_right) (op_name cntk_layer))
      | _ \<Rightarrow> Inl IndexError)"

definition classification_error :: "layer \<Rightarrow> handle list \<Rightarrow> error + node" where
  "classification_error cntk_layer inps =
     (case inps of
        sanitize_output # sanitize_label # _ \<Rightarrow>
          (case parameters cntk_layer of
             ClassificationErrorParameters top_n \<Rightarrow>
               Inr (ClassificationError (Ref sanitize_output) (Ref sanitize_label) top_n
                      (op_name cntk_layer))
           | _ \<Rightarrow> Inl AttributeError)
      | _ \<Rightarrow> Inl IndexError)"

definition cross_entropy_with_softmax :: "layer \<Rightarrow> handle list \<Rightarrow> error + node" where
  "cross_entropy_with_softmax cntk_layer inps =
     (case inps of
        sanitize_output # sanitize_label # _ \<Rightarrow>
          Inr (CrossEntropyWithSoftmax (Ref sanitize_output) (Ref sanitize_label)
                 (op_name cntk_layer))
      | _ \<Rightarrow> Inl IndexError)"

definition dropout :: "layer \<Rightarrow> handle list \<Rightarrow> error + node" where
  "dropout cntk_layer inps =
     (case inps of
        [] \<Rightarrow> Inl IndexError
      | sanitize_output # _ \<Rightarrow> Inr (Dropout (Ref sanitize_output) (op_name cntk_layer)))"

text \<open>
  \<^verbatim>\<open>BlockApiSetup.lrn\<close>. The native convolution is called with its default strides and
  padding.
\<close>

definition block_lrn :: "real \<Rightarrow> nat \<Rightarrow> real \<Rightarrow> real \<Rightarrow> string \<Rightarrow> node \<Rightarrow> node" where
  "block_lrn k n alpha_f beta_f name x =
     (let x2 = Square x;
          x2s = Reshape x2 [1, InferredDimension] 0 1;
          w = Constant (alpha_f / real_of_int (2 * int n - 1)) [1, 2 * int n - 1, 1, 1] ''W'';
          y = Convolution w x2s [1] [True];
          b = Reshape y [InferredDimension] 0 2;
          den = Exp (ScalarTimes beta_f (Log (ScalarPlus k b)))
      in Block ''lrn'' name (ElementDivide x den))"

definition lrn :: "layer \<Rightarrow> handle list \<Rightarrow> error + node" where
  "lrn cntk_layer inps =
     (case inps of
        [] \<Rightarrow> Inl IndexError
      | sanitize_output # _ \<Rightarrow>
          (case parameters cntk_layer of
             LrnParameters params \<Rightarrow>
               Inr (block_lrn (lrn_k params) (kernel_size params) (alpha params) (beta params)
                      (op_name cntk_layer) (Ref sanitize_output))
           | _ \<Rightarrow> Inl AttributeError))"

definition splice_builder :: "layer \<Rightarrow> handle list \<Rightarrow> error + node" where
  "splice_builder cntk_layer inps = Inr (Splice (map Ref inps) 0 (op_name cntk_layer))"

definition psroi_pooling :: "layer \<Rightarrow> handle list \<Rightarrow> error + node" where
  "psroi_pooling cntk_layer inps =
     (case inps of
        conv_map # rois # _ \<Rightarrow>
          (case parameters cntk_layer of
             PSROIPoolingParameters group_size out_channel \<Rightarrow>
               Inr (PSROIPooling (Ref conv_map) (Ref rois) group_size out_channel
                      (op_name cntk_layer))
           | _ \<Rightarrow> Inl AttributeError)
      | _ \<Rightarrow> Inl IndexError)"

definition softmax :: "layer \<Rightarrow> handle list \<Rightarrow> error + node" where
  "softmax cntk_layer inps =
     (case inps of
        [] \<Rightarrow> Inl IndexError
      | santize_output # _ \<Rightarrow> Inr (Softmax (Ref santize_output) (op_name cntk_layer)))"

text \<open>
  \<^verbatim>\<open>getattr(ApiSetup, cntk_layer.op_type.name)(cntk_layer, local_inputs)\<close>: the builder is
  found by the name of the layer type, and a name that is no builder is an
  \<^verbatim>\<open>AttributeError\<close>. \<open>shp\<close> gives the shape of a graph object.
\<close>

definition api_setup :: "(handle \<Rightarrow> nat list) \<Rightarrow> layer \<Rightarrow> handle list \<Rightarrow> error + node" where
  "api_setup shp cntk_layer local_inputs =
     (let name = op_type cntk_layer
      in if name = ''convolution'' then convolution cntk_layer local_inputs
         else if name = ''batch_normalization'' then
           batch_normalization shp cntk_layer local_inputs
         else if name = ''pooling'' then pooling cntk_layer local_inputs
         else if name = ''relu'' then relu cntk_layer local_inputs
         else if name = ''dense'' then dense shp cntk_layer local_inputs
         else if name = ''plus'' then plus_builder cntk_layer local_inputs
         else if name = ''classification_error'' then
           classification_error cntk_layer local_inputs
         else if name = ''cross_entropy_with_softmax'' then
           cross_entropy_with_softmax cntk_layer local_inputs
         else if name = ''dropout'' then dropout cntk_layer local_inputs
         else if name = ''lrn'' then lrn cntk_layer local_inputs
         else if name = ''splice'' then splice_builder cntk_layer local_inputs
         else if name = ''psroi_pooling'' then psroi_pooling cntk_layer local_inputs
         else if name = ''softmax'' then softmax cntk_layer local_inputs
         else Inl AttributeError)"

section \<open>CntkApiInstance\<close>

text \<open>
  The state of an instance: the symbol table \<^verbatim>\<open>_functions\<close> (\<open>function_table\<close>),
  the store of the graph objects constructed so far, and \<^verbatim>\<open>_output\<close>
  (\<open>model_output\<close>). A new object gets the next free place of
  the store, so it is no object that existed before. \<^verbatim>\<open>ops.combine\<close> is given the
  elements of the set \<^verbatim>\<open>usused_func\<close> in no particular order; the model keeps the set.
\<close>

datatype graph = Combine "handle set" string

record api_instance =
  function_table :: "string \<rightharpoonup> handle"
  objects :: "node list"
  model_output :: "graph option"

record data_provider_def =
  provider_name :: string
  provider_tensor :: "nat list"

record uni_model =
  data_provider :: "data_provider_def list"
  cntk_sorted_layers :: "string list"
  cntk_layers :: "string \<rightharpoonup> layer"

definition bind_function :: "api_instance \<Rightarrow> string \<Rightarrow> node \<Rightarrow> api_instance" where
  "bind_function st key n =
     st\<lparr>function_table := (function_table st)(key \<mapsto> length (objects st)),
        objects := objects st @ [n]\<rparr>"

definition instance_input ::
  "(string \<times> nat list) list option \<Rightarrow> data_provider_def list \<Rightarrow> api_instance \<Rightarrow> api_instance" where
  "instance_input cntk_tensor data_providers st =
     (case cntk_tensor of
        Some items \<Rightarrow>
          foldl (\<lambda>s (key, tensor). bind_function s key (InputVariable tensor key)) st items
      | None \<Rightarrow>
          foldl (\<lambda>s dp. bind_function s (provider_name dp)
                          (InputVariable (provider_tensor dp) (provider_name dp)))
                st data_providers)"

text \<open>
  Lines 271 to 274: the inputs of a layer are looked up in the symbol table (a missing
  name is a \<^verbatim>\<open>KeyError\<close>) and taken out of \<^verbatim>\<open>usused_func\<close>.
\<close>

fun resolve_inputs ::
  "(string \<rightharpoonup> handle) \<Rightarrow> string list \<Rightarrow> handle list \<Rightarrow> handle set
     \<Rightarrow> error + (handle list \<times> handle set)" where
  "resolve_inputs fs [] local_inputs usused_func = Inr (local_inputs, usused_func)"
| "resolve_inputs fs (local_input # rest) local_inputs usused_func =
     (case fs local_input of
        None \<Rightarrow> Inl KeyError
      | Some h \<Rightarrow>
          resolve_inputs fs rest (local_inputs @ [h])
            (if h \<in> usused_func then usused_func - {h} else usused_func))"

text \<open>
  Lines 268 to 276, the loop over \<^verbatim>\<open>cntk_sorted_layers\<close>. \<open>shape_of\<close> is the shape
  inference of the native library on the objects of the store.
\<close>

fun assemble ::
  "(node list \<Rightarrow> handle \<Rightarrow> nat list) \<Rightarrow> (string \<rightharpoonup> layer) \<Rightarrow> string list \<Rightarrow> api_instance
     \<Rightarrow> handle set \<Rightarrow> error + (api_instance \<times> handle set)" where
  "assemble shape_of layers [] st usused_func = Inr (st, usused_func)"
| "assemble shape_of layers (cntk_sorted_layer # rest) st usused_func =
     (case layers cntk_sorted_layer of
        None \<Rightarrow> Inl KeyError
      | Some cntk_layer \<Rightarrow>
          (case resolve_inputs (function_table st) (inputs cntk_layer) [] usused_func of
             Inl e \<Rightarrow> Inl e
           | Inr (local_inputs, unused) \<Rightarrow>
               (case api_setup (shape_of (objects st)) cntk_layer local_inputs of
                  Inl e \<Rightarrow> Inl e
                | Inr n \<Rightarrow>
                    assemble shape_of layers rest
                      (bind_function st (op_name cntk_layer) n)
                      (insert (length (objects st)) unused))))"

definition instance_functions ::
  "(node list \<Rightarrow> handle \<Rightarrow> nat list) \<Rightarrow> string list \<Rightarrow> (string \<rightharpoonup> layer) \<Rightarrow> api_instance
     \<Rightarrow> error + api_instance" where
  "instance_functions shape_of sorted_layers layers st =
     (case assemble shape_of layers sorted_layers st {} of
        Inl e \<Rightarrow> Inl e
      | Inr (st', usused_func) \<Rightarrow>
          Inr (st'\<lparr>model_output := Some (Combine usused_func ''outputs'')\<rparr>))"

text \<open>\<^verbatim>\<open>__init__\<close> and \<^verbatim>\<open>__instance__\<close>.\<close>

definition cntk_api_instance ::
  "(node list \<Rightarrow> handle \<Rightarrow> nat list) \<Rightarrow> (string \<times> nat list) list option \<Rightarrow> uni_model
     \<Rightarrow> error + api_instance" where
  "cntk_api_instance shape_of cntk_tensor cntk_uni_model =
     instance_functions shape_of (cntk_sorted_layers cntk_uni_model)
       (cntk_layers cntk_uni_model)
       (instance_input cntk_tensor (data_provider cntk_uni_model)
          \<lparr>function_table = Map.empty, objects = [], model_output = None\<rparr>)"

text \<open>
  The terminal layers of a model: the identifiers in \<^verbatim>\<open>cntk_sorted_layers\<close> that no
  other layer of the model has in its \<^verbatim>\<open>inputs\<close>.
\<close>

definition consumed_by :: "(string \<rightharpoonup> layer) \<Rightarrow> string \<Rightarrow> string \<Rightarrow> bool" where
  "consumed_by layers k k' =
     (case layers k' of None \<Rightarrow> False | Some l \<Rightarrow> k \<in> set (inputs l))"

definition terminal_layers :: "(string \<rightharpoonup> layer) \<Rightarrow> string list \<Rightarrow> string set" where
  "terminal_layers layers sorted_layers =
     {k \<in> set sorted_layers.
        \<forall>k' \<in> set sorted_layers. k' \<noteq> k \<longrightarrow> \<not> consumed_by layers k k'}"

text \<open>
  A model is in topological order when its identifiers are listed once, each is
  registered with the descriptor of that name, and every input of a layer that names a
  layer of the model names one that is listed earlier.
\<close>

definition topological :: "(string \<rightharpoonup> layer) \<Rightarrow> string list \<Rightarrow> bool" where
  "topological layers sorted_layers =
     (distinct sorted_layers \<and>
      (\<forall>k \<in> set sorted_layers.
         case layers k of None \<Rightarrow> True | Some l \<Rightarrow> op_name l = k) \<and>
      (\<forall>i < length sorted_layers.
         case layers (sorted_layers ! i) of
           None \<Rightarrow> True
         | Some l \<Rightarrow>
             \<forall>x \<in> set (inputs l).
               x \<in> set sorted_layers \<longrightarrow> x \<in> set (take i sorted_layers)))"

text \<open>
  No two names of the symbol table share an object, and every object of the table is in
  the store.
\<close>

definition fresh_table :: "api_instance \<Rightarrow> bool" where
  "fresh_table st =
     (inj_on (function_table st) (dom (function_table st)) \<and>
      (\<forall>k h. function_table st k = Some h \<longrightarrow> h < length (objects st)))"

text \<open>
  What holds between two rounds of the loop, \<open>processed\<close> being the identifiers already
  handled: every processed layer is in the table, and \<^verbatim>\<open>usused_func\<close> holds the outputs
  of the processed layers that no other processed layer consumes.
\<close>

definition assembling ::
  "(string \<rightharpoonup> layer) \<Rightarrow> string list \<Rightarrow> api_instance \<Rightarrow> handle set \<Rightarrow> bool" where
  "assembling layers processed st usused_func =
     (fresh_table st \<and>
      set processed \<subseteq> dom (function_table st) \<and>
      usused_func =
        {h. \<exists>k \<in> terminal_layers layers processed. function_table st k = Some h})"

section \<open>Evaluator.eval_model\<close>

text \<open>
  Standard output is the list of the strings written. Lines 320 to 348 (the reader, the
  trainer and the loop over the minibatches) are calls of the native runtime; they are
  the parameter \<open>evaluation\<close>, which gets the solver, the two files and the output written
  so far.
\<close>

record classify_eval_solver =
  index_map :: "string option"
  mean_file :: "string option"
  label_tensor :: "nat list"
  top_n :: nat
  dataset_size :: nat
  batch_size :: nat

definition eval_model ::
  "(classify_eval_solver \<Rightarrow> string \<Rightarrow> string option \<Rightarrow> string list
      \<Rightarrow> (error + unit) \<times> string list)
     \<Rightarrow> classify_eval_solver \<Rightarrow> string list \<Rightarrow> (error + unit) \<times> string list" where
  "eval_model evaluation solver out =
     (let out1 = out @ [''start eval...\<newline>'', ''launch map and mean files\<newline>''];
          map_file = index_map solver;
          mean = mean_file solver
      in case map_file of
           None \<Rightarrow> (Inr (), out1 @ [''fail to locate index files, eval exit.\<newline>''])
         | Some f \<Rightarrow> evaluation solver f mean out1)"

section \<open>Example models\<close>

definition vector :: "real list \<Rightarrow> tensor_def" where
  "vector xs = \<lparr>tdata = \<lparr>shape = [length xs], data = xs\<rparr>\<rparr>"

definition simple_layer :: "string \<Rightarrow> string \<Rightarrow> string list \<Rightarrow> layer" where
  "simple_layer name type ins =
     \<lparr>op_name = name, op_type = type, inputs = ins, parameters = NoParameters,
      parameter_tensor = []\<rparr>"

definition bn_layer :: "tensor_def list \<Rightarrow> layer" where
  "bn_layer pt =
     \<lparr>op_name = ''bn1'', op_type = ''batch_normalization'', inputs = [''data''],
      parameters = BatchNormParameters (1 / 100000), parameter_tensor = pt\<rparr>"

definition dense_layer :: "tensor_def list \<Rightarrow> layer" where
  "dense_layer pt =
     \<lparr>op_name = ''fc1'', op_type = ''dense'', inputs = [''data''],
      parameters = DenseParameters 2 True, parameter_tensor = pt\<rparr>"

definition conv_params :: "bool \<Rightarrow> convolution_parameters" where
  "conv_params bias =
     \<lparr>conv_output = 2, conv_kernel = [1, 1], stride = [1, 1], auto_pad = True,
      need_bias = bias, conv_group = 1, dilation = [1, 1]\<rparr>"

definition conv_layer :: "bool \<Rightarrow> tensor_def list \<Rightarrow> layer" where
  "conv_layer bias pt =
     \<lparr>op_name = ''conv1'', op_type = ''convolution'', inputs = [''data''],
      parameters = ConvolutionParameters (conv_params bias), parameter_tensor = pt\<rparr>"

text \<open>The network \<open>A \<rightarrow> B\<close>, \<open>A \<rightarrow> C\<close>, \<open>B, C \<rightarrow> D\<close> on one input.\<close>

definition diamond_layers :: "string \<rightharpoonup> layer" where
  "diamond_layers =
     [''A'' \<mapsto> simple_layer ''A'' ''relu'' [''data''],
      ''B'' \<mapsto> simple_layer ''B'' ''relu'' [''A''],
      ''C'' \<mapsto> simple_layer ''C'' ''relu'' [''A''],
      ''D'' \<mapsto> simple_layer ''D'' ''plus'' [''B'', ''C'']]"

definition diamond_model :: uni_model where
  "diamond_model =
     \<lparr>data_provider = [\<lparr>provider_name = ''data'', provider_tensor = [3, 8, 8]\<rparr>],
      cntk_sorted_layers = [''A'', ''B'', ''C'', ''D''],
      cntk_layers = diamond_layers\<rparr>"

definition eval_solver :: "string option \<Rightarrow> string option \<Rightarrow> classify_eval_solver" where
  "eval_solver map_file mean =
     \<lparr>index_map = map_file, mean_file = mean, label_tensor = [1000], top_n = 1,
      dataset_size = 100, batch_size = 10\<rparr>"

text \<open>An evaluation that ran: it writes its summary line and returns.\<close>

definition evaluation_ran ::
  "classify_eval_solver \<Rightarrow> string \<Rightarrow> string option \<Rightarrow> string list
     \<Rightarrow> (error + unit) \<times> string list" where
  "evaluation_ran solver map_file mean out =
     (Inr (), out @ [''Final evaluate error with 0.0\<newline>''])"

section \<open>Indices of an array\<close>

lemma valid_index_Cons [simp]:
  "valid_index (n # s) (i # idx) = (i < n \<and> valid_index s idx)"
  by (simp add: valid_index_def)

lemma valid_index_Nil [simp]: "valid_index [] idx = (idx = [])"
  by (simp add: valid_index_def)


lemma ravel_less: "valid_index s idx \<Longrightarrow> ravel s idx < prod_list s"
proof (induction s idx rule: ravel.induct)
  case (1 n s i idx)
  then have "i < n" and r: "ravel s idx < prod_list s" by simp_all
  then have "i * prod_list s + ravel s idx < Suc i * prod_list s" by simp
  also have "\<dots> \<le> n * prod_list s" using \<open>i < n\<close> by (simp add: Suc_leI mult_le_mono1 del: mult_Suc)
  finally show ?case by simp
qed (auto simp: valid_index_def)

lemma valid_index_rev: "valid_index (rev s) (rev idx) = valid_index s idx"
  by (simp add: valid_index_def)

lemma unravel_valid: "k < prod_list s \<Longrightarrow> valid_index s (unravel s k)"
proof (induction s arbitrary: k)
  case Nil
  then show ?case by simp
next
  case (Cons n s)
  then have pos: "0 < prod_list s" by (cases "prod_list s") auto
  from Cons.prems have "k div prod_list s < n"
    by (simp add: less_mult_imp_div_less mult.commute)
  moreover have "k mod prod_list s < prod_list s" using pos by simp
  ultimately show ?case using Cons.IH by simp
qed

lemma ravel_unravel: "k < prod_list s \<Longrightarrow> ravel s (unravel s k) = k"
proof (induction s arbitrary: k)
  case Nil
  then show ?case by simp
next
  case (Cons n s)
  then have pos: "0 < prod_list s" by (cases "prod_list s") auto
  then have "ravel s (unravel s (k mod prod_list s)) = k mod prod_list s"
    using Cons.IH by simp
  then show ?case by simp
qed

lemma unravel_ravel: "valid_index s idx \<Longrightarrow> unravel s (ravel s idx) = idx"
proof (induction s idx rule: ravel.induct)
  case (1 n s i idx)
  then have r: "ravel s idx < prod_list s" by (simp add: ravel_less)
  with 1 show ?case by simp
qed (auto simp: valid_index_def)



section \<open>The transposition is an involution\<close>

lemma numpy_transpose_involution:
  assumes "wf_ndarray a"
  shows "numpy_transpose (numpy_transpose a) = a"
proof -
  let ?s = "shape a"
  have "map (\<lambda>k. data (numpy_transpose a) ! ravel (rev ?s) (rev (unravel ?s k)))
            [0..<prod_list ?s] = data a"
  proof (rule nth_equalityI)
    show "length (map (\<lambda>k. data (numpy_transpose a) ! ravel (rev ?s) (rev (unravel ?s k)))
            [0..<prod_list ?s]) = length (data a)"
      using assms by (simp add: wf_ndarray_def)
  next
    fix j
    assume "j < length (map (\<lambda>k. data (numpy_transpose a) ! ravel (rev ?s)
               (rev (unravel ?s k))) [0..<prod_list ?s])"
    then have j: "j < prod_list ?s" by simp
    then have v: "valid_index ?s (unravel ?s j)" by (rule unravel_valid)
    then have v': "valid_index (rev ?s) (rev (unravel ?s j))" by (simp add: valid_index_rev)
    then have lt: "ravel (rev ?s) (rev (unravel ?s j)) < prod_list ?s"
      using ravel_less[OF v'] by simp
    have "data (numpy_transpose a) ! ravel (rev ?s) (rev (unravel ?s j))
          = data a ! ravel ?s (rev (unravel (rev ?s) (ravel (rev ?s) (rev (unravel ?s j)))))"
      using lt by (simp add: numpy_transpose_def)
    also have "\<dots> = data a ! ravel ?s (unravel ?s j)"
      by (simp add: unravel_ravel[OF v'])
    also have "\<dots> = data a ! j" by (simp add: ravel_unravel[OF j])
    finally show "map (\<lambda>k. data (numpy_transpose a) ! ravel (rev ?s) (rev (unravel ?s k)))
            [0..<prod_list ?s] ! j = data a ! j"
      using j by simp
  qed
  then show ?thesis
    by (simp add: numpy_transpose_def)
qed

lemma numpy_transpose_wf: "wf_ndarray (numpy_transpose a)"
  by (simp add: numpy_transpose_def wf_ndarray_def)

text \<open>
  Claim C6. Let the pretrained dense weight \<open>w\<close> have as many elements as the flattened
  input channels times the output channels. Then the orientation transform of the
  builder (reshape to \<open>(output_channel, flattened_channel)\<close>, transpose, reshape to the
  input shape followed by the output channels) succeeds, and the inverse reshape, the
  inverse transpose and the inverse reshape applied to its result give back \<open>w\<close>.
\<close>

theorem dense_orientation_round_trip:
  assumes "wf_ndarray w"
      and "reduce_mul input_channel = Inr flattened_channel"
      and "length (data w) = flattened_channel * output_channel"
  shows "\<exists>r. dense_scale_init True output_channel flattened_channel
                (input_channel @ [output_channel]) w = Inr r \<and>
             dense_scale_init_inverse output_channel flattened_channel (shape w) r = Inr w"
proof -
  obtain c cs where ic: "input_channel = c # cs" and fc: "flattened_channel = foldl (*) c cs"
    using assms(2) by (auto simp: reduce_mul_def split: list.splits)
  have "foldl (*) c cs = prod_list (c # cs)"
    by (induction cs arbitrary: c) (simp_all add: mult.assoc)
  then have p: "prod_list (input_channel @ [output_channel]) = flattened_channel * output_channel"
    using ic fc by simp
  let ?a = "\<lparr>shape = [output_channel, flattened_channel], data = data w\<rparr>"
  have wfa: "wf_ndarray ?a" using assms(3) by (simp add: wf_ndarray_def mult.commute)
  let ?t = "numpy_transpose ?a"
  have lt: "length (data ?t) = flattened_channel * output_channel"
    by (simp add: numpy_transpose_def mult.commute)
  have st: "shape ?t = [flattened_channel, output_channel]"
    by (simp add: numpy_transpose_def)
  let ?r = "\<lparr>shape = input_channel @ [output_channel], data = data ?t\<rparr>"
  have fwd: "dense_scale_init True output_channel flattened_channel
                (input_channel @ [output_channel]) w = Inr ?r"
    using assms(3) p lt by (simp add: dense_scale_init_def numpy_reshape_def mult.commute)
  have back1: "numpy_reshape ?r [flattened_channel, output_channel] = Inr ?t"
    using lt st by (simp add: numpy_reshape_def)
  have tt: "numpy_transpose ?t = ?a" by (rule numpy_transpose_involution[OF wfa])
  have "numpy_reshape ?a (shape w) = Inr w"
    using assms(1) by (simp add: numpy_reshape_def wf_ndarray_def)
  with back1 tt have "dense_scale_init_inverse output_channel flattened_channel (shape w) ?r = Inr w"
    by (simp add: dense_scale_init_inverse_def)
  with fwd show ?thesis by blast
qed

theorem dense_orientation_round_trip_witness:
  "wf_ndarray \<lparr>shape = [6], data = [1, 2, 3, 4, 5, 6]\<rparr> \<and>
   reduce_mul [3] = Inr 3 \<and>
   length (data \<lparr>shape = [6], data = [1, 2, 3, 4, 5, 6 :: real]\<rparr>) = 3 * 2 \<and>
   dense_scale_init True 2 3 ([3] @ [2]) \<lparr>shape = [6], data = [1, 2, 3, 4, 5, 6]\<rparr> =
     Inr \<lparr>shape = [3, 2], data = [1, 4, 2, 5, 3, 6]\<rparr> \<and>
   dense_scale_init_inverse 2 3 [6] \<lparr>shape = [3, 2], data = [1, 4, 2, 5, 3, 6]\<rparr> =
     Inr \<lparr>shape = [6], data = [1, 2, 3, 4, 5, 6]\<rparr>"
proof -
  let ?w = "\<lparr>shape = [6], data = [1, 2, 3, 4, 5, 6 :: real]\<rparr>"
  have wf: "wf_ndarray ?w" by (simp add: wf_ndarray_def)
  have fc: "reduce_mul [3] = Inr 3" by (simp add: reduce_mul_def)
  have len: "length (data ?w) = 3 * 2" by simp
  have fwd: "dense_scale_init True 2 3 ([3] @ [2]) ?w =
               Inr \<lparr>shape = [3, 2], data = [1, 4, 2, 5, 3, 6]\<rparr>"
    by code_simp
  from dense_orientation_round_trip[OF wf fc len] fwd
  have "dense_scale_init_inverse 2 3 [6] \<lparr>shape = [3, 2], data = [1, 4, 2, 5, 3, 6]\<rparr> = Inr ?w"
    by simp
  with wf fc len fwd show ?thesis by blast
qed

section \<open>The expansion of a dilated kernel\<close>



lemma chunks_length [simp]: "length (chunks m n xs) = n"
  by (simp add: chunks_def)



subsection \<open>The lines of one axis\<close>
































section \<open>Batch normalization\<close>

text \<open>
  Claim C2. When the list of pretrained tensors of a batch-normalization layer is not
  empty and holds fewer than three tensors, the builder returns no output for any
  inputs; called with a resolved input that has a channel axis it raises the validation
  error of line 132.
\<close>

theorem batch_normalization_short_tensor_list:
  assumes "parameter_tensor cntk_layer \<noteq> []"
      and "length (parameter_tensor cntk_layer) < 3"
  shows "(\<forall>n. batch_normalization shp cntk_layer inps \<noteq> Inr n) \<and>
         (inps \<noteq> [] \<and> shp (hd inps) \<noteq> [] \<longrightarrow>
            batch_normalization shp cntk_layer inps =
              Inl (AssertionError
                ''At least three tensors (saved_mean, saved_variance and scale) are needed''))"
  using assms
  by (auto simp: batch_normalization_def batch_normalization_inits_def
           split: list.splits)

theorem batch_normalization_short_tensor_list_witness:
  "parameter_tensor (bn_layer [vector [1, 2], vector [3, 4]]) \<noteq> [] \<and>
   length (parameter_tensor (bn_layer [vector [1, 2], vector [3, 4]])) < 3 \<and>
   [0 :: nat] \<noteq> [] \<and> (\<lambda>h. [2 :: nat, 8, 8]) (hd [0 :: nat]) \<noteq> [] \<and>
   batch_normalization (\<lambda>h. [2, 8, 8]) (bn_layer [vector [1, 2], vector [3, 4]]) [0] =
     Inl (AssertionError
       ''At least three tensors (saved_mean, saved_variance and scale) are needed'')"
  using batch_normalization_short_tensor_list
    [where cntk_layer = "bn_layer [vector [1, 2], vector [3, 4]]"
       and shp = "\<lambda>h. [2, 8, 8]" and inps = "[0]"]
  by (simp add: bn_layer_def)



text \<open>
  Claim C4. For a batch-normalization layer with at least three pretrained tensors the
  builder chooses between the two forms by the number of tensors alone. With exactly
  five, the fourth and the fifth tensor are the initializers of the scale and the bias
  parameter as they are; with any other number these are the inverse global scale and 0.
  In both forms the mean and the variance are the first and the second tensor
  multiplied by the inverse global scale, and by nothing else.
\<close>

theorem batch_normalization_affine_form:
  assumes "3 \<le> length (parameter_tensor cntk_layer)"
      and "first_scalar (tdata (parameter_tensor cntk_layer ! 2)) = Inr global_scale"
      and "inps = h # hs" and "shp h = c # cs"
      and "parameters cntk_layer = BatchNormParameters epsilon"
  shows "batch_normalization shp cntk_layer inps =
           Inr (BatchNormalization (Ref h)
                  (Parameter [int c]
                     (if length (parameter_tensor cntk_layer) = 5
                      then InitArray (asarray (parameter_tensor cntk_layer ! 3))
                      else InitScalar (inv_scale global_scale))
                     (dot_join (op_name cntk_layer) ''scale''))
                  (Parameter [int c]
                     (if length (parameter_tensor cntk_layer) = 5
                      then InitArray (asarray (parameter_tensor cntk_layer ! 4))
                      else InitScalar 0)
                     (dot_join (op_name cntk_layer) ''bias''))
                  (Parameter [int c]
                     (InitArray (scalar_mult (asarray (parameter_tensor cntk_layer ! 0))
                                   (inv_scale global_scale)))
                     (dot_join (op_name cntk_layer) ''mean''))
                  (Parameter [int c]
                     (InitArray (scalar_mult (asarray (parameter_tensor cntk_layer ! 1))
                                   (inv_scale global_scale)))
                     (dot_join (op_name cntk_layer) ''var''))
                  True False epsilon (Constant 0 [] []) (op_name cntk_layer))"
proof -
  from assms(1) have ne: "parameter_tensor cntk_layer \<noteq> []" by auto
  show ?thesis
    using assms ne
    by (simp add: batch_normalization_def batch_normalization_inits_def Let_def)
qed

theorem batch_normalization_affine_form_witness:
  "3 \<le> length (parameter_tensor (bn_layer
      [vector [1, 2], vector [3, 4], vector [2], vector [5, 6], vector [7, 8]])) \<and>
   first_scalar (tdata (parameter_tensor (bn_layer
      [vector [1, 2], vector [3, 4], vector [2], vector [5, 6], vector [7, 8]]) ! 2)) = Inr 2 \<and>
   batch_normalization (\<lambda>h. [2, 8, 8])
     (bn_layer [vector [1, 2], vector [3, 4], vector [2], vector [5, 6], vector [7, 8]]) [0] =
     Inr (BatchNormalization (Ref 0)
            (Parameter [2] (InitArray (asarray (vector [5, 6]))) ''bn1.scale'')
            (Parameter [2] (InitArray (asarray (vector [7, 8]))) ''bn1.bias'')
            (Parameter [2] (InitArray (scalar_mult (asarray (vector [1, 2])) (1 / 2)))
               ''bn1.mean'')
            (Parameter [2] (InitArray (scalar_mult (asarray (vector [3, 4])) (1 / 2)))
               ''bn1.var'')
            True False (1 / 100000) (Constant 0 [] []) ''bn1'') \<and>
   batch_normalization (\<lambda>h. [2, 8, 8])
     (bn_layer [vector [1, 2], vector [3, 4], vector [2]]) [0] =
     Inr (BatchNormalization (Ref 0)
            (Parameter [2] (InitScalar (1 / 2)) ''bn1.scale'')
            (Parameter [2] (InitScalar 0) ''bn1.bias'')
            (Parameter [2] (InitArray (scalar_mult (asarray (vector [1, 2])) (1 / 2)))
               ''bn1.mean'')
            (Parameter [2] (InitArray (scalar_mult (asarray (vector [3, 4])) (1 / 2)))
               ''bn1.var'')
            True False (1 / 100000) (Constant 0 [] []) ''bn1'')"
proof -
  let ?L5 = "bn_layer [vector [1, 2], vector [3, 4], vector [2], vector [5, 6], vector [7, 8]]"
  let ?L3 = "bn_layer [vector [1, 2], vector [3, 4], vector [2]]"
  have three5: "3 \<le> length (parameter_tensor ?L5)" by (simp add: bn_layer_def)
  have three3: "3 \<le> length (parameter_tensor ?L3)" by (simp add: bn_layer_def)
  have g5: "first_scalar (tdata (parameter_tensor ?L5 ! 2)) = Inr 2"
    by (simp add: bn_layer_def vector_def first_scalar_def)
  have g3: "first_scalar (tdata (parameter_tensor ?L3 ! 2)) = Inr 2"
    by (simp add: bn_layer_def vector_def first_scalar_def)
  have eps5: "parameters ?L5 = BatchNormParameters (1 / 100000)" by (simp add: bn_layer_def)
  have eps3: "parameters ?L3 = BatchNormParameters (1 / 100000)" by (simp add: bn_layer_def)
  have inv: "inv_scale 2 = 1 / 2" by (simp add: inv_scale_def)
  have r5: "batch_normalization (\<lambda>h. [2, 8, 8]) ?L5 [0] =
     Inr (BatchNormalization (Ref 0)
            (Parameter [2] (InitArray (asarray (vector [5, 6]))) ''bn1.scale'')
            (Parameter [2] (InitArray (asarray (vector [7, 8]))) ''bn1.bias'')
            (Parameter [2] (InitArray (scalar_mult (asarray (vector [1, 2])) (1 / 2)))
               ''bn1.mean'')
            (Parameter [2] (InitArray (scalar_mult (asarray (vector [3, 4])) (1 / 2)))
               ''bn1.var'')
            True False (1 / 100000) (Constant 0 [] []) ''bn1'')"
    using batch_normalization_affine_form
      [where cntk_layer = ?L5 and global_scale = 2 and inps = "[0]" and h = 0 and hs = "[]"
         and shp = "\<lambda>h. [2, 8, 8]" and c = 2 and cs = "[8, 8]" and epsilon = "1 / 100000"]
      three5 g5 eps5
    by (simp add: bn_layer_def dot_join_def inv)
  have r3: "batch_normalization (\<lambda>h. [2, 8, 8]) ?L3 [0] =
     Inr (BatchNormalization (Ref 0)
            (Parameter [2] (InitScalar (1 / 2)) ''bn1.scale'')
            (Parameter [2] (InitScalar 0) ''bn1.bias'')
            (Parameter [2] (InitArray (scalar_mult (asarray (vector [1, 2])) (1 / 2)))
               ''bn1.mean'')
            (Parameter [2] (InitArray (scalar_mult (asarray (vector [3, 4])) (1 / 2)))
               ''bn1.var'')
            True False (1 / 100000) (Constant 0 [] []) ''bn1'')"
    using batch_normalization_affine_form
      [where cntk_layer = ?L3 and global_scale = 2 and inps = "[0]" and h = 0 and hs = "[]"
         and shp = "\<lambda>h. [2, 8, 8]" and c = 2 and cs = "[8, 8]" and epsilon = "1 / 100000"]
      three3 g3 eps3
    by (simp add: bn_layer_def dot_join_def inv)
  from three5 g5 r5 r3 show ?thesis by blast
qed

section \<open>Dense layers\<close>

text \<open>
  Claim C10. The dense builder returns an output only when the layer has exactly two
  pretrained tensors. Called with a resolved input that has at least one axis, it raises
  \<^verbatim>\<open>UnboundLocalError\<close> when the list of tensors is empty (the initializers are read
  on line 194 without having been assigned) and the validation error of line 183 for any
  other number of tensors that is not two.
\<close>

theorem dense_needs_two_tensors:
  "(dense shp cntk_layer inps = Inr n \<longrightarrow> length (parameter_tensor cntk_layer) = 2) \<and>
   (inps = h # hs \<and> shp h = c # cs \<and> parameters cntk_layer = DenseParameters oc tr \<and>
    length (parameter_tensor cntk_layer) \<noteq> 2 \<longrightarrow>
      dense shp cntk_layer inps =
        Inl (if parameter_tensor cntk_layer = [] then UnboundLocalError
             else AssertionError ''dense layer layer receives two inputs (scale/bias)''))"
  by (auto simp: dense_def dense_inits_def reduce_mul_def Let_def
           split: list.splits parameters.splits sum.splits if_splits)

theorem dense_needs_two_tensors_witness:
  "dense (\<lambda>h. [3]) (dense_layer []) [0] = Inl UnboundLocalError \<and>
   dense (\<lambda>h. [3]) (dense_layer [vector [1], vector [2], vector [3]]) [0] =
     Inl (AssertionError ''dense layer layer receives two inputs (scale/bias)'') \<and>
   dense (\<lambda>h. [3]) (dense_layer [vector [1, 2, 3, 4, 5, 6], vector [7, 8]]) [0] =
     Inr (linear_block [2] [3, 2] \<lparr>shape = [3, 2], data = [1, 4, 2, 5, 3, 6]\<rparr>
            \<lparr>shape = [2], data = [7, 8]\<rparr> ''fc1'' (Ref 0)) \<and>
   length (parameter_tensor (dense_layer [vector [1, 2, 3, 4, 5, 6], vector [7, 8]])) = 2"
proof -
  have ok: "dense (\<lambda>h. [3]) (dense_layer [vector [1, 2, 3, 4, 5, 6], vector [7, 8]]) [0] =
      Inr (linear_block [2] [3, 2] \<lparr>shape = [3, 2], data = [1, 4, 2, 5, 3, 6]\<rparr>
            \<lparr>shape = [2], data = [7, 8]\<rparr> ''fc1'' (Ref 0))"
    by code_simp
  from dense_needs_two_tensors
    [where cntk_layer = "dense_layer [vector [1, 2, 3, 4, 5, 6], vector [7, 8]]"
       and shp = "\<lambda>h. [3]" and inps = "[0]"] ok
  have two: "length (parameter_tensor (dense_layer [vector [1, 2, 3, 4, 5, 6], vector [7, 8]])) = 2"
    by simp
  have none: "dense (\<lambda>h. [3]) (dense_layer []) [0] = Inl UnboundLocalError"
    using dense_needs_two_tensors
      [where cntk_layer = "dense_layer []" and shp = "\<lambda>h. [3]" and inps = "[0]"
         and h = 0 and hs = "[]" and c = 3 and cs = "[]" and oc = 2 and tr = True]
    by (simp add: dense_layer_def)
  have three: "dense (\<lambda>h. [3]) (dense_layer [vector [1], vector [2], vector [3]]) [0] =
     Inl (AssertionError ''dense layer layer receives two inputs (scale/bias)'')"
    using dense_needs_two_tensors
      [where cntk_layer = "dense_layer [vector [1], vector [2], vector [3]]"
         and shp = "\<lambda>h. [3]" and inps = "[0]"
         and h = 0 and hs = "[]" and c = 3 and cs = "[]" and oc = 2 and tr = True]
    by (simp add: dense_layer_def)
  from none three ok two show ?thesis by simp
qed

section \<open>Convolution\<close>

lemma block_convolution_bias:
  assumes "block_convolution outp ks st pad ki bi grp dil name x = Inr n"
  shows "ki \<noteq> None \<and>
         bias_parameter n =
           map_option (\<lambda>b. Parameter [int outp] (InitArray b) (dot_join name ''b'')) bi"
proof -
  from assms obtain ws where
    ws: "convolution_weights outp ks ki grp dil name = Inr ws"
    by (auto simp: block_convolution_def split: sum.splits)
  have "ki \<noteq> None"
    using ws by (cases ki) (auto simp: convolution_weights_def weights_parameter_def Let_def split: if_splits)
  moreover have "bias_parameter n =
           map_option (\<lambda>b. Parameter [int outp] (InitArray b) (dot_join name ''b'')) bi"
    using assms ws
    by (cases bi; cases ws)
       (auto simp: block_convolution_def bias_parameter_def conv_ops_def Let_def
             split: prod.splits)
  ultimately show ?thesis by simp
qed

text \<open>
  Claim C7, as amended. An initializer of the bias is made only when the descriptor asks
  for a bias and has pretrained tensors, and it is the second tensor in the shape
  \<open>(output_channels, 1, 1)\<close>. Whenever the convolution builder returns a block, the
  layer has pretrained tensors, and the block has a bias parameter exactly when the
  descriptor asks for a bias; the parameter then has that initializer.
\<close>

theorem convolution_bias_parameter:
  "(convolution_bias_init params pt = Inr (Some b) \<longrightarrow>
      need_bias params \<and> pt \<noteq> [] \<and>
      b = \<lparr>shape = [conv_output params, 1, 1], data = data (asarray (pt ! 1))\<rparr>) \<and>
   (convolution cntk_layer inps = Inr n \<longrightarrow>
      (\<exists>p. parameters cntk_layer = ConvolutionParameters p \<and>
           parameter_tensor cntk_layer \<noteq> [] \<and>
           bias_parameter n =
             (if need_bias p then
                Some (Parameter [int (conv_output p)]
                        (InitArray \<lparr>shape = [conv_output p, 1, 1],
                                     data = data (asarray (parameter_tensor cntk_layer ! 1))\<rparr>)
                        (dot_join (op_name cntk_layer) ''b''))
              else None)))"
proof (intro conjI impI)
  assume "convolution_bias_init params pt = Inr (Some b)"
  then show "need_bias params" "pt \<noteq> []"
    "b = \<lparr>shape = [conv_output params, 1, 1], data = data (asarray (pt ! 1))\<rparr>"
    by (auto simp: convolution_bias_init_def numpy_reshape_def Let_def
             split: if_splits sum.splits)
next
  assume run: "convolution cntk_layer inps = Inr n"
  then obtain h hs p bi where inps: "inps = h # hs"
    and p: "parameters cntk_layer = ConvolutionParameters p"
    and bi: "convolution_bias_init p (parameter_tensor cntk_layer) = Inr bi"
    and blk: "block_convolution (conv_output p) (conv_kernel p) (stride p) (auto_pad p)
                (if parameter_tensor cntk_layer \<noteq> []
                 then Some (asarray (parameter_tensor cntk_layer ! 0)) else None)
                bi (conv_group p) (dilation p) (op_name cntk_layer) (Ref h) = Inr n"
    by (auto simp: convolution_def Let_def split: list.splits parameters.splits sum.splits)
  from block_convolution_bias[OF blk] have ne: "parameter_tensor cntk_layer \<noteq> []"
    and bp: "bias_parameter n =
       map_option (\<lambda>b. Parameter [int (conv_output p)] (InitArray b)
                          (dot_join (op_name cntk_layer) ''b'')) bi"
    by (auto split: if_splits)
  have "bi = (if need_bias p then
                Some \<lparr>shape = [conv_output p, 1, 1],
                      data = data (asarray (parameter_tensor cntk_layer ! 1))\<rparr>
              else None)"
    using bi ne
    by (auto simp: convolution_bias_init_def numpy_reshape_def Let_def
             split: if_splits sum.splits)
  with bp p ne show "\<exists>p. parameters cntk_layer = ConvolutionParameters p \<and>
           parameter_tensor cntk_layer \<noteq> [] \<and>
           bias_parameter n =
             (if need_bias p then
                Some (Parameter [int (conv_output p)]
                        (InitArray \<lparr>shape = [conv_output p, 1, 1],
                                     data = data (asarray (parameter_tensor cntk_layer ! 1))\<rparr>)
                        (dot_join (op_name cntk_layer) ''b''))
              else None)"
    by auto
qed

theorem convolution_bias_parameter_witness:
  "convolution_bias_init (conv_params True)
      [\<lparr>tdata = \<lparr>shape = [2, 3, 1, 1], data = [1, 2, 3, 4, 5, 6]\<rparr>\<rparr>, vector [7, 8]] =
     Inr (Some \<lparr>shape = [2, 1, 1], data = [7, 8]\<rparr>) \<and>
   need_bias (conv_params True) \<and>
   (\<exists>n. convolution (conv_layer True
            [\<lparr>tdata = \<lparr>shape = [2, 3, 1, 1], data = [1, 2, 3, 4, 5, 6]\<rparr>\<rparr>, vector [7, 8]]) [0] =
          Inr n \<and>
        bias_parameter n =
          Some (Parameter [2] (InitArray \<lparr>shape = [2, 1, 1], data = [7, 8]\<rparr>) ''conv1.b''))"
proof -
  let ?pt = "[\<lparr>tdata = \<lparr>shape = [2, 3, 1, 1], data = [1, 2, 3, 4, 5, 6]\<rparr>\<rparr>, vector [7, 8]]"
  let ?n = "Block ''Convolution'' ''conv1''
              (Plus (Convolution
                       (Parameter [2, - 1, 1, 1]
                          (InitArray \<lparr>shape = [2, 3, 1, 1], data = [1, 2, 3, 4, 5, 6]\<rparr>)
                          ''conv1.W'')
                       (Ref 0) [- 1, 1, 1] [True])
                    (Parameter [2] (InitArray \<lparr>shape = [2, 1, 1], data = [7, 8]\<rparr>) ''conv1.b'')
                    [])"
  have bi: "convolution_bias_init (conv_params True) ?pt =
              Inr (Some \<lparr>shape = [2, 1, 1], data = [7, 8]\<rparr>)"
    by code_simp
  have run: "convolution (conv_layer True ?pt) [0] = Inr ?n"
    by code_simp
  from convolution_bias_parameter
    [where cntk_layer = "conv_layer True ?pt" and inps = "[0]" and n = ?n
       and params = "conv_params True" and pt = ?pt
       and b = "\<lparr>shape = [2, 1, 1], data = [7, 8]\<rparr>"] bi run
  have "need_bias (conv_params True)"
    and "bias_parameter ?n =
          Some (Parameter [2] (InitArray \<lparr>shape = [2, 1, 1], data = [7, 8]\<rparr>) ''conv1.b'')"
    by (simp_all add: conv_layer_def conv_params_def vector_def asarray_def dot_join_def)
  with bi run show ?thesis by blast
qed

text \<open>
  A descriptor that asks for a bias and has no pretrained tensor: no initializer of the
  bias is made, and the builder raises before any bias parameter exists.
\<close>

theorem convolution_bias_counterexample:
  "need_bias (conv_params True) \<and>
   convolution_bias_init (conv_params True) [] = Inr None \<and>
   convolution (conv_layer True []) [0] = Inl AttributeError"
  by (simp add: conv_layer_def conv_params_def convolution_def convolution_bias_init_def
        block_convolution_def convolution_weights_def weights_parameter_def)

section \<open>The builders of two inputs\<close>

text \<open>
  Claim C8, as amended. The builders of the elementwise sum, of the cross entropy with
  softmax and of the classification error do not test the number of their inputs. They
  read the first two: with fewer than two inputs the read raises \<^verbatim>\<open>IndexError\<close>
  and the native operation is not called; with two or more the native operation is
  called on the first two, and further inputs are ignored.
\<close>

theorem pairwise_builders_first_two_inputs:
  "plus_builder cntk_layer inps =
     (if length inps < 2 then Inl IndexError
      else Inr (Plus (Ref (inps ! 0)) (Ref (inps ! 1)) (op_name cntk_layer))) \<and>
   cross_entropy_with_softmax cntk_layer inps =
     (if length inps < 2 then Inl IndexError
      else Inr (CrossEntropyWithSoftmax (Ref (inps ! 0)) (Ref (inps ! 1)) (op_name cntk_layer))) \<and>
   classification_error cntk_layer inps =
     (if length inps < 2 then Inl IndexError
      else case parameters cntk_layer of
             ClassificationErrorParameters n \<Rightarrow>
               Inr (ClassificationError (Ref (inps ! 0)) (Ref (inps ! 1)) n (op_name cntk_layer))
           | _ \<Rightarrow> Inl AttributeError)"
  by (cases inps; cases "tl inps")
     (auto simp: plus_builder_def cross_entropy_with_softmax_def classification_error_def
           split: parameters.splits)

theorem pairwise_builders_first_two_inputs_witness:
  "plus_builder (simple_layer ''add1'' ''plus'' [''a'']) [0] = Inl IndexError \<and>
   plus_builder (simple_layer ''add1'' ''plus'' [''a'', ''b'']) [0, 1] =
     Inr (Plus (Ref 0) (Ref 1) ''add1'') \<and>
   cross_entropy_with_softmax (simple_layer ''ce'' ''cross_entropy_with_softmax'' [''a'', ''b''])
     [0, 1] = Inr (CrossEntropyWithSoftmax (Ref 0) (Ref 1) ''ce'') \<and>
   classification_error (simple_layer ''pe'' ''classification_error'' []) [] = Inl IndexError"
  using pairwise_builders_first_two_inputs
      [where cntk_layer = "simple_layer ''add1'' ''plus'' [''a'']" and inps = "[0]"]
    pairwise_builders_first_two_inputs
      [where cntk_layer = "simple_layer ''add1'' ''plus'' [''a'', ''b'']" and inps = "[0, 1]"]
    pairwise_builders_first_two_inputs
      [where cntk_layer = "simple_layer ''ce'' ''cross_entropy_with_softmax'' [''a'', ''b'']"
         and inps = "[0, 1]"]
    pairwise_builders_first_two_inputs
      [where cntk_layer = "simple_layer ''pe'' ''classification_error'' []" and inps = "[]"]
  by (simp add: simple_layer_def)

text \<open>Three inputs are not rejected: the sum of the first two is built.\<close>

theorem plus_three_inputs_counterexample:
  "plus_builder (simple_layer ''add1'' ''plus'' [''a'', ''b'', ''c'']) [0, 1, 2] =
     Inr (Plus (Ref 0) (Ref 1) ''add1'')"
  by (simp add: plus_builder_def simple_layer_def)

section \<open>The assembler\<close>

lemma resolve_inputs_result:
  "resolve_inputs fs xs li u = Inr (li', u') \<Longrightarrow>
     set xs \<subseteq> dom fs \<and> u' = u - {h. \<exists>x \<in> set xs. fs x = Some h}"
proof (induction xs arbitrary: li u)
  case Nil
  then show ?case by simp
next
  case (Cons x xs)
  then obtain h where h: "fs x = Some h" by (auto split: option.splits)
  with Cons.prems have
    r: "resolve_inputs fs xs (li @ [h]) (if h \<in> u then u - {h} else u) = Inr (li', u')"
    by simp
  from Cons.IH[OF r] h show ?case by auto
qed

lemma bind_function_simps [simp]:
  "function_table (bind_function st k n) = (function_table st)(k \<mapsto> length (objects st))"
  "objects (bind_function st k n) = objects st @ [n]"
  "model_output (bind_function st k n) = model_output st"
  by (simp_all add: bind_function_def)

lemma fresh_table_bind:
  assumes "fresh_table st"
  shows "fresh_table (bind_function st k n)"
proof -
  let ?f = "function_table st" and ?N = "length (objects st)"
  from assms have inj: "inj_on ?f (dom ?f)" and bnd: "\<And>k h. ?f k = Some h \<Longrightarrow> h < ?N"
    by (auto simp: fresh_table_def)
  have "inj_on (?f(k \<mapsto> ?N)) (dom (?f(k \<mapsto> ?N)))"
  proof (rule inj_onI)
    fix x y
    assume x: "x \<in> dom (?f(k \<mapsto> ?N))" and y: "y \<in> dom (?f(k \<mapsto> ?N))"
      and eq: "(?f(k \<mapsto> ?N)) x = (?f(k \<mapsto> ?N)) y"
    show "x = y"
    proof (cases "x = k")
      case True
      show ?thesis
      proof (rule ccontr)
        assume "x \<noteq> y"
        with True eq have "?f y = Some ?N" by (simp split: if_splits)
        from bnd[OF this] show False by simp
      qed
    next
      case False
      show ?thesis
      proof (cases "y = k")
        case True
        with False eq have "?f x = Some ?N" by (simp split: if_splits)
        from bnd[OF this] show ?thesis by simp
      next
        case yk: False
        with False x y eq have "x \<in> dom ?f" "y \<in> dom ?f" "?f x = ?f y" by auto
        with inj show ?thesis by (auto dest: inj_onD)
      qed
    qed
  qed
  moreover have "\<forall>ka h. (?f(k \<mapsto> ?N)) ka = Some h \<longrightarrow> h < Suc ?N"
    using bnd by (auto simp: less_Suc_eq split: if_splits)
  ultimately show ?thesis by (simp add: fresh_table_def)
qed

lemma fresh_table_foldl:
  "fresh_table st \<Longrightarrow> fresh_table (foldl (\<lambda>s x. bind_function s (kf x) (nf x)) st xs)"
  by (induction xs arbitrary: st) (simp_all add: fresh_table_bind)

lemma fresh_table_instance_input:
  "fresh_table st \<Longrightarrow> fresh_table (instance_input cntk_tensor dps st)"
proof (cases cntk_tensor)
  case None
  assume "fresh_table st"
  then show ?thesis
    using None fresh_table_foldl[of st provider_name "\<lambda>dp. InputVariable (provider_tensor dp) (provider_name dp)" dps]
    by (simp add: instance_input_def)
next
  case (Some items)
  assume "fresh_table st"
  then show ?thesis
    using Some fresh_table_foldl[of st fst "\<lambda>p. InputVariable (snd p) (fst p)" items]
    by (simp add: instance_input_def split_def)
qed

lemma topological_appendD:
  assumes "topological layers (ps @ k # ks)"
  shows "k \<notin> set ps" "k \<notin> set ks"
    and "\<And>l. layers k = Some l \<Longrightarrow> op_name l = k"
    and "\<And>l x. layers k = Some l \<Longrightarrow> x \<in> set (inputs l) \<Longrightarrow> x \<in> set ps \<or> x \<notin> set (ps @ k # ks)"
    and "\<And>k' l'. k' \<in> set ps \<Longrightarrow> layers k' = Some l' \<Longrightarrow> k \<notin> set (inputs l')"
proof -
  from assms have d: "distinct (ps @ k # ks)" by (simp add: topological_def)
  then show "k \<notin> set ps" "k \<notin> set ks" by auto
  show "\<And>l. layers k = Some l \<Longrightarrow> op_name l = k"
    using assms by (fastforce simp: topological_def)
  have t: "\<And>i l x. i < length (ps @ k # ks) \<Longrightarrow> layers ((ps @ k # ks) ! i) = Some l \<Longrightarrow>
      x \<in> set (inputs l) \<Longrightarrow> x \<in> set (ps @ k # ks) \<Longrightarrow> x \<in> set (take i (ps @ k # ks))"
    using assms unfolding topological_def by (auto split: option.splits)
  show "\<And>l x. layers k = Some l \<Longrightarrow> x \<in> set (inputs l) \<Longrightarrow> x \<in> set ps \<or> x \<notin> set (ps @ k # ks)"
    using t[of "length ps"] by auto
  show "\<And>k' l'. k' \<in> set ps \<Longrightarrow> layers k' = Some l' \<Longrightarrow> k \<notin> set (inputs l')"
  proof
    fix k' l'
    assume k': "k' \<in> set ps" and l': "layers k' = Some l'" and kin: "k \<in> set (inputs l')"
    from k' obtain i where i: "i < length ps" "ps ! i = k'" by (auto simp: in_set_conv_nth)
    then have "(ps @ k # ks) ! i = k'" by (simp add: nth_append)
    with t[of i l' k] i l' kin have "k \<in> set (take i (ps @ k # ks))" by simp
    with i have "k \<in> set (take i ps)" by simp
    then have "k \<in> set ps" by (rule in_set_takeD)
    with \<open>k \<notin> set ps\<close> show False by simp
  qed
qed


lemma assembling_step:
  assumes top: "topological layers (ps @ k # ks)"
      and inv: "assembling layers ps st u"
      and l: "layers k = Some l"
      and res: "resolve_inputs (function_table st) (inputs l) [] u = Inr (li, u1)"
  shows "assembling layers (ps @ [k]) (bind_function st (op_name l) n)
           (insert (length (objects st)) u1)"
proof -
  let ?f = "function_table st" and ?N = "length (objects st)"
  note td = topological_appendD[OF top]
  have name: "op_name l = k" using td(3)[OF l] .
  from inv have fresh: "fresh_table st" and dom: "set ps \<subseteq> dom ?f"
    and u: "u = {h. \<exists>k \<in> terminal_layers layers ps. ?f k = Some h}"
    by (simp_all add: assembling_def)
  from fresh have inj: "inj_on ?f (dom ?f)" and bnd: "\<And>k h. ?f k = Some h \<Longrightarrow> h < ?N"
    by (auto simp: fresh_table_def)
  from resolve_inputs_result[OF res] have
    u1: "u1 = u - {h. \<exists>x \<in> set (inputs l). ?f x = Some h}" by simp
  let ?f' = "?f(k \<mapsto> ?N)"
  have term_k: "k \<in> terminal_layers layers (ps @ [k])"
    using td(5) by (auto simp: terminal_layers_def consumed_by_def split: option.splits)
  have term_old: "k2 \<in> terminal_layers layers (ps @ [k]) \<longleftrightarrow>
        k2 \<in> terminal_layers layers ps \<and> k2 \<notin> set (inputs l)" if "k2 \<noteq> k" for k2
    using that l by (auto simp: terminal_layers_def consumed_by_def)
  have set_eq: "insert ?N u1 = {h. \<exists>k2 \<in> terminal_layers layers (ps @ [k]). ?f' k2 = Some h}"
  proof (rule set_eqI)
    fix h
    show "h \<in> insert ?N u1 \<longleftrightarrow> h \<in> {h. \<exists>k2 \<in> terminal_layers layers (ps @ [k]). ?f' k2 = Some h}"
    proof
      assume "h \<in> insert ?N u1"
      then consider "h = ?N" | "h \<in> u1" by auto
      then show "h \<in> {h. \<exists>k2 \<in> terminal_layers layers (ps @ [k]). ?f' k2 = Some h}"
      proof cases
        case 1
        with term_k show ?thesis by auto
      next
        case 2
        with u1 u obtain k2 where k2: "k2 \<in> terminal_layers layers ps" "?f k2 = Some h"
          and nx: "\<forall>x \<in> set (inputs l). ?f x \<noteq> Some h" by auto
        from k2(1) have "k2 \<in> set ps" by (simp add: terminal_layers_def)
        with td(1) have ne: "k2 \<noteq> k" by auto
        from nx k2(2) have "k2 \<notin> set (inputs l)" by auto
        with term_old[OF ne] k2(1) have "k2 \<in> terminal_layers layers (ps @ [k])" by simp
        moreover from ne k2(2) have "?f' k2 = Some h" by simp
        ultimately show ?thesis by blast
      qed
    next
      assume "h \<in> {h. \<exists>k2 \<in> terminal_layers layers (ps @ [k]). ?f' k2 = Some h}"
      then obtain k2 where k2: "k2 \<in> terminal_layers layers (ps @ [k])" "?f' k2 = Some h"
        by auto
      show "h \<in> insert ?N u1"
      proof (cases "k2 = k")
        case True
        with k2(2) show ?thesis by simp
      next
        case False
        with k2(2) have fk2: "?f k2 = Some h" by simp
        from term_old[OF False] k2(1) have t: "k2 \<in> terminal_layers layers ps"
          and ni: "k2 \<notin> set (inputs l)" by simp_all
        have "?f x \<noteq> Some h" if "x \<in> set (inputs l)" for x
        proof
          assume "?f x = Some h"
          with fk2 inj have "x = k2" by (auto dest!: inj_onD[where x = x and y = k2])
          with that ni show False by simp
        qed
        with t fk2 u u1 have "h \<in> u1" by auto
        then show ?thesis by simp
      qed
    qed
  qed
  have "fresh_table (bind_function st k n)" using fresh by (rule fresh_table_bind)
  moreover have "set (ps @ [k]) \<subseteq> dom ?f'" using dom by auto
  ultimately show ?thesis
    using set_eq by (simp add: assembling_def name)
qed

lemma assemble_assembling:
  "assemble shape_of layers ks st u = Inr (st', u') \<Longrightarrow> topological layers (ps @ ks) \<Longrightarrow>
   assembling layers ps st u \<Longrightarrow> assembling layers (ps @ ks) st' u'"
proof (induction ks arbitrary: ps st u)
  case Nil
  then show ?case by simp
next
  case (Cons k ks)
  from Cons.prems(1) obtain l li u1 n where
    l: "layers k = Some l"
    and res: "resolve_inputs (function_table st) (inputs l) [] u = Inr (li, u1)"
    and rest: "assemble shape_of layers ks (bind_function st (op_name l) n)
                 (insert (length (objects st)) u1) = Inr (st', u')"
    by (auto split: option.splits sum.splits prod.splits)
  have step: "assembling layers (ps @ [k]) (bind_function st (op_name l) n)
                (insert (length (objects st)) u1)"
    using Cons.prems(2,3) l res by (rule assembling_step)
  from Cons.prems(2) have "topological layers ((ps @ [k]) @ ks)" by simp
  from Cons.IH[OF rest this step] show ?case by simp
qed

lemma assemble_append:
  "assemble shape_of layers (ps @ ks) st u =
     (case assemble shape_of layers ps st u of
        Inl e \<Rightarrow> Inl e
      | Inr (st', u') \<Rightarrow> assemble shape_of layers ks st' u')"
  by (induction ps arbitrary: st u) (auto split: option.splits sum.splits prod.splits)

text \<open>
  Claim C1. Let the model be in topological order and let the construction of the
  instance finish. Then the set given to the final combine is the set of the outputs of
  the terminal layers, the layers whose identifier is in the inputs of no other layer of
  the model; every terminal layer has its output in the symbol table, and different
  layers have different outputs.
\<close>

theorem terminal_outputs:
  assumes "cntk_api_instance shape_of cntk_tensor m = Inr st"
      and "topological (cntk_layers m) (cntk_sorted_layers m)"
  shows "model_output st =
           Some (Combine
                  {h. \<exists>k \<in> terminal_layers (cntk_layers m) (cntk_sorted_layers m).
                        function_table st k = Some h}
                  ''outputs'') \<and>
         terminal_layers (cntk_layers m) (cntk_sorted_layers m) \<subseteq> dom (function_table st) \<and>
         inj_on (function_table st) (dom (function_table st))"
proof -
  let ?st0 = "instance_input cntk_tensor (data_provider m)
                \<lparr>function_table = Map.empty, objects = [], model_output = None\<rparr>"
  from assms(1) obtain st' u where
    a: "assemble shape_of (cntk_layers m) (cntk_sorted_layers m) ?st0 {} = Inr (st', u)"
    and st: "st = st'\<lparr>model_output := Some (Combine u ''outputs'')\<rparr>"
    by (auto simp: cntk_api_instance_def instance_functions_def split: sum.splits prod.splits)
  have "fresh_table \<lparr>function_table = Map.empty, objects = [], model_output = None\<rparr>"
    by (simp add: fresh_table_def)
  then have "fresh_table ?st0" by (rule fresh_table_instance_input)
  then have "assembling (cntk_layers m) [] ?st0 {}"
    by (simp add: assembling_def terminal_layers_def)
  from assemble_assembling[OF a _ this] assms(2)
  have inv: "assembling (cntk_layers m) (cntk_sorted_layers m) st' u" by simp
  then show ?thesis
    using st by (auto simp: assembling_def fresh_table_def terminal_layers_def)
qed

theorem terminal_outputs_witness:
  "topological (cntk_layers diamond_model) (cntk_sorted_layers diamond_model) \<and>
   terminal_layers (cntk_layers diamond_model) (cntk_sorted_layers diamond_model) = {''D''} \<and>
   (\<exists>st. cntk_api_instance (\<lambda>objs h. []) None diamond_model = Inr st \<and>
         function_table st ''D'' = Some 4 \<and>
         model_output st = Some (Combine {4} ''outputs''))"
proof -
  have top: "topological (cntk_layers diamond_model) (cntk_sorted_layers diamond_model)"
    by (auto simp: topological_def diamond_model_def diamond_layers_def simple_layer_def
          less_Suc_eq nth_Cons')
  have terminal: "terminal_layers (cntk_layers diamond_model) (cntk_sorted_layers diamond_model)
                = {''D''}"
    by (auto simp: terminal_layers_def consumed_by_def diamond_model_def diamond_layers_def
          simple_layer_def)
  have "\<exists>st. cntk_api_instance (\<lambda>objs h. []) None diamond_model = Inr st \<and>
          function_table st ''D'' = Some 4"
    by (simp add: cntk_api_instance_def instance_functions_def instance_input_def
          diamond_model_def diamond_layers_def simple_layer_def bind_function_def
          api_setup_def relu_def plus_builder_def)
  then obtain st where run: "cntk_api_instance (\<lambda>objs h. []) None diamond_model = Inr st"
    and d: "function_table st ''D'' = Some 4"
    by blast
  from terminal_outputs[OF run top]
  have "model_output st =
          Some (Combine {h. \<exists>k \<in> {''D''}. function_table st k = Some h} ''outputs'')"
    by (simp only: terminal)
  with d have "model_output st = Some (Combine {4} ''outputs'')" by simp
  with top terminal run d show ?thesis by blast
qed

section \<open>Evaluation\<close>

text \<open>
  Claim C9, as amended. When the index file is missing (\<^verbatim>\<open>index_map\<close> is \<^verbatim>\<open>None\<close>),
  \<^verbatim>\<open>eval_model\<close> writes its two progress lines and the diagnostic line and returns
  without raising and without starting the evaluation, whatever the mean file is. When
  the index file is there, the evaluation is started with the mean file as it is,
  missing or not, and its outcome, an error included, is the outcome of
  \<^verbatim>\<open>eval_model\<close>. An error of a builder during the construction of the graph ends
  \<^verbatim>\<open>instance_functions\<close> with that error.
\<close>

theorem eval_model_missing_index:
  "(index_map solver = None \<longrightarrow>
      eval_model evaluation solver out =
        (Inr (), out @ [''start eval...\<newline>'', ''launch map and mean files\<newline>'',
                        ''fail to locate index files, eval exit.\<newline>''])) \<and>
   (index_map solver = Some f \<longrightarrow>
      eval_model evaluation solver out =
        evaluation solver f (mean_file solver)
          (out @ [''start eval...\<newline>'', ''launch map and mean files\<newline>''])) \<and>
   (assemble shape_of layers ps st {} = Inr (st1, u1) \<and> layers k = Some l \<and>
    resolve_inputs (function_table st1) (inputs l) [] u1 = Inr (li, u2) \<and>
    api_setup (shape_of (objects st1)) l li = Inl e \<longrightarrow>
      instance_functions shape_of (ps @ k # rest) layers st = Inl e)"
  by (simp add: eval_model_def instance_functions_def assemble_append)

theorem eval_model_missing_index_witness:
  "eval_model evaluation_ran (eval_solver None (Some ''mean.xml'')) [] =
     (Inr (), [''start eval...\<newline>'', ''launch map and mean files\<newline>'',
               ''fail to locate index files, eval exit.\<newline>'']) \<and>
   eval_model evaluation_ran (eval_solver (Some ''map.txt'') (Some ''mean.xml'')) [] =
     (Inr (), [''start eval...\<newline>'', ''launch map and mean files\<newline>'',
               ''Final evaluate error with 0.0\<newline>'']) \<and>
   instance_functions (\<lambda>objs h. [2, 8, 8]) ([] @ ''bn1'' # [])
     [''bn1'' \<mapsto> bn_layer [vector [1, 2], vector [3, 4]]]
     \<lparr>function_table = [''data'' \<mapsto> 0], objects = [InputVariable [2, 8, 8] ''data''],
      model_output = None\<rparr> =
     Inl (AssertionError
       ''At least three tensors (saved_mean, saved_variance and scale) are needed'')"
proof -
  let ?st = "\<lparr>function_table = [''data'' \<mapsto> 0 :: handle],
               objects = [InputVariable [2, 8, 8] ''data''], model_output = None\<rparr>"
  let ?layers = "[''bn1'' \<mapsto> bn_layer [vector [1, 2], vector [3, 4]]]"
  let ?e = "AssertionError
       ''At least three tensors (saved_mean, saved_variance and scale) are needed''"
  have a: "eval_model evaluation_ran (eval_solver None (Some ''mean.xml'')) [] =
     (Inr (), [''start eval...\<newline>'', ''launch map and mean files\<newline>'',
               ''fail to locate index files, eval exit.\<newline>''])"
    using eval_model_missing_index
      [where solver = "eval_solver None (Some ''mean.xml'')" and evaluation = evaluation_ran
         and out = "[]"]
    by (simp add: eval_solver_def)
  have b: "eval_model evaluation_ran (eval_solver (Some ''map.txt'') (Some ''mean.xml'')) [] =
     (Inr (), [''start eval...\<newline>'', ''launch map and mean files\<newline>'',
               ''Final evaluate error with 0.0\<newline>''])"
    using eval_model_missing_index
      [where solver = "eval_solver (Some ''map.txt'') (Some ''mean.xml'')"
         and evaluation = evaluation_ran and out = "[]" and f = "''map.txt''"]
    by (simp add: eval_solver_def evaluation_ran_def)
  have l: "?layers ''bn1'' = Some (bn_layer [vector [1, 2], vector [3, 4]])" by simp
  have r: "resolve_inputs (function_table ?st)
             (inputs (bn_layer [vector [1, 2], vector [3, 4]])) [] {} = Inr ([0], {})"
    by (simp add: bn_layer_def)
  have f: "api_setup ((\<lambda>objs h. [2, 8, 8]) (objects ?st))
             (bn_layer [vector [1, 2], vector [3, 4]]) [0] = Inl ?e"
    by (simp add: api_setup_def bn_layer_def batch_normalization_def
          batch_normalization_inits_def)
  have c: "instance_functions (\<lambda>objs h. [2, 8, 8]) ([] @ ''bn1'' # []) ?layers ?st = Inl ?e"
    using eval_model_missing_index
      [where shape_of = "\<lambda>objs h. [2, 8, 8]" and layers = ?layers and ps = "[]"
         and st = ?st and ?st1.0 = ?st and ?u1.0 = "{}" and k = "''bn1''"
         and l = "bn_layer [vector [1, 2], vector [3, 4]]" and li = "[0]" and ?u2.0 = "{}"
         and e = ?e and rest = "[]"]
      l r f
    by simp
  from a b c show ?thesis by blast
qed

text \<open>
  A run with the index file and without the mean file: no diagnostic is written and the
  evaluation is started.
\<close>

theorem eval_model_missing_mean_counterexample:
  "eval_model evaluation_ran (eval_solver (Some ''val_map.txt'') None) [] =
     (Inr (), [''start eval...\<newline>'', ''launch map and mean files\<newline>'',
               ''Final evaluate error with 0.0\<newline>'']) \<and>
   ''fail to locate index files, eval exit.\<newline>'' \<notin>
     set (snd (eval_model evaluation_ran (eval_solver (Some ''val_map.txt'') None) []))"
  by (simp add: eval_model_def eval_solver_def evaluation_ran_def)

end
